theory Spec2Isabelle
  imports Main "HOL-Library.Word"
begin

unbundle bit_operations_syntax

section \<open>The register map of the CTU CAN FD core\<close>

text \<open>
  The header \<^verbatim>\<open>driver/ctu_can_fd_regs.h\<close> holds no executable code: it declares one
  enumeration of register byte offsets, one union per 32-bit register word (a raw
  \<^verbatim>\<open>uint32_t u32\<close> next to a struct \<^verbatim>\<open>s\<close> of bit-fields, written twice under
  \<^verbatim>\<open>#ifdef __LITTLE_ENDIAN_BITFIELD\<close> / \<^verbatim>\<open>#else\<close>), and enumerations naming the values of
  some fields. The declarations are embedded as data, in the order of the file; the
  meaning C gives them (where a bit-field lies in its storage unit, what reading and
  assigning a bit-field does to the word it shares with \<^verbatim>\<open>u32\<close>) is embedded as functions
  on 32-bit words.
\<close>

subsection \<open>Declarations as data\<close>

text \<open>A bit-field declaration \<^verbatim>\<open>uint32_t name : width;\<close>.\<close>

type_synonym bitfield = "string \<times> nat"

text \<open>
  The fields of the little-endian branch are grouped by the comments naming the register
  they belong to (\<^verbatim>\<open>/* MODE */\<close>, \<^verbatim>\<open>/* COMMAND */\<close>, ...): a section is such a comment with
  the fields that follow it.
\<close>

type_synonym reg_section = "string \<times> bitfield list"

text \<open>
  The body of \<^verbatim>\<open>struct ..._s\<close>: either both branches of the conditional (the sections of
  the \<^verbatim>\<open>#ifdef __LITTLE_ENDIAN_BITFIELD\<close> branch, then the fields of the \<^verbatim>\<open>#else\<close> branch,
  which carries no comments), or one unconditional list of sections.
\<close>

datatype struct_body =
    Ifdef "reg_section list" "bitfield list"
  | Plain "reg_section list"

datatype reg_union = Union (u_tag: string) (u_body: struct_body)

text \<open>An enumeration: its tag and its enumerators with their values, in order.\<close>

datatype c_enum = Enum (e_tag: string) (e_consts: "(string \<times> nat) list")

definition ctu_can_fd_can_registers :: c_enum where
  "ctu_can_fd_can_registers = Enum ''ctu_can_fd_can_registers''
     [(''CTU_CAN_FD_DEVICE_ID'', 0x0), (''CTU_CAN_FD_VERSION'', 0x2),
      (''CTU_CAN_FD_MODE'', 0x4), (''CTU_CAN_FD_COMMAND'', 0x5),
      (''CTU_CAN_FD_STATUS'', 0x6), (''CTU_CAN_FD_SETTINGS'', 0x7),
      (''CTU_CAN_FD_INT_STAT'', 0x8), (''CTU_CAN_FD_INT_ENA_SET'', 0xc),
      (''CTU_CAN_FD_INT_ENA_CLR'', 0x10), (''CTU_CAN_FD_INT_MASK_SET'', 0x14),
      (''CTU_CAN_FD_INT_MASK_CLR'', 0x18), (''CTU_CAN_FD_BTR'', 0x1c),
      (''CTU_CAN_FD_BTR_FD'', 0x20), (''CTU_CAN_FD_EWL'', 0x24),
      (''CTU_CAN_FD_ERP'', 0x25), (''CTU_CAN_FD_FAULT_STATE'', 0x26),
      (''CTU_CAN_FD_RXC'', 0x28), (''CTU_CAN_FD_TXC'', 0x2a),
      (''CTU_CAN_FD_ERR_NORM'', 0x2c), (''CTU_CAN_FD_ERR_FD'', 0x2e),
      (''CTU_CAN_FD_CTR_PRES'', 0x30), (''CTU_CAN_FD_FILTER_A_MASK'', 0x34),
      (''CTU_CAN_FD_FILTER_A_VAL'', 0x38), (''CTU_CAN_FD_FILTER_B_MASK'', 0x3c),
      (''CTU_CAN_FD_FILTER_B_VAL'', 0x40), (''CTU_CAN_FD_FILTER_C_MASK'', 0x44),
      (''CTU_CAN_FD_FILTER_C_VAL'', 0x48), (''CTU_CAN_FD_FILTER_RAN_LOW'', 0x4c),
      (''CTU_CAN_FD_FILTER_RAN_HIGH'', 0x50), (''CTU_CAN_FD_FILTER_CONTROL'', 0x54),
      (''CTU_CAN_FD_FILTER_STATUS'', 0x56), (''CTU_CAN_FD_RX_MEM_INFO'', 0x58),
      (''CTU_CAN_FD_RX_POINTERS'', 0x5c), (''CTU_CAN_FD_RX_STATUS'', 0x60),
      (''CTU_CAN_FD_RX_SETTINGS'', 0x62), (''CTU_CAN_FD_RX_DATA'', 0x64),
      (''CTU_CAN_FD_TX_STATUS'', 0x68), (''CTU_CAN_FD_TX_COMMAND'', 0x6c),
      (''CTU_CAN_FD_TX_PRIORITY'', 0x70), (''CTU_CAN_FD_ERR_CAPT'', 0x74),
      (''CTU_CAN_FD_ALC'', 0x75), (''CTU_CAN_FD_TRV_DELAY'', 0x78),
      (''CTU_CAN_FD_SSP_CFG'', 0x7a), (''CTU_CAN_FD_RX_COUNTER'', 0x7c),
      (''CTU_CAN_FD_TX_COUNTER'', 0x80), (''CTU_CAN_FD_DEBUG_REGISTER'', 0x84),
      (''CTU_CAN_FD_YOLO_REG'', 0x88), (''CTU_CAN_FD_TIMESTAMP_LOW'', 0x8c),
      (''CTU_CAN_FD_TIMESTAMP_HIGH'', 0x90), (''CTU_CAN_FD_TXTB1_DATA_1'', 0x100),
      (''CTU_CAN_FD_TXTB1_DATA_2'', 0x104), (''CTU_CAN_FD_TXTB1_DATA_20'', 0x14c),
      (''CTU_CAN_FD_TXTB2_DATA_1'', 0x200), (''CTU_CAN_FD_TXTB2_DATA_2'', 0x204),
      (''CTU_CAN_FD_TXTB2_DATA_20'', 0x24c), (''CTU_CAN_FD_TXTB3_DATA_1'', 0x300),
      (''CTU_CAN_FD_TXTB3_DATA_2'', 0x304), (''CTU_CAN_FD_TXTB3_DATA_20'', 0x34c),
      (''CTU_CAN_FD_TXTB4_DATA_1'', 0x400), (''CTU_CAN_FD_TXTB4_DATA_2'', 0x404),
      (''CTU_CAN_FD_TXTB4_DATA_20'', 0x44c), (''CTU_CAN_FD_LOG_TRIG_CONFIG'', 0x500),
      (''CTU_CAN_FD_LOG_CAPT_CONFIG'', 0x504), (''CTU_CAN_FD_LOG_STATUS'', 0x508),
      (''CTU_CAN_FD_LOG_POINTERS'', 0x50a), (''CTU_CAN_FD_LOG_COMMAND'', 0x50c),
      (''CTU_CAN_FD_LOG_CAPT_EVENT_1'', 0x510), (''CTU_CAN_FD_LOG_CAPT_EVENT_2'', 0x514)]"

definition ctu_can_fd_device_id_version :: reg_union where
  "ctu_can_fd_device_id_version = Union ''ctu_can_fd_device_id_version'' (Ifdef
     [(''DEVICE_ID'',
        [(''device_id'', 16)]),
      (''VERSION'',
        [(''ver_minor'', 8), (''ver_major'', 8)])]
     [(''ver_major'', 8), (''ver_minor'', 8), (''device_id'', 16)])"

definition ctu_can_fd_device_id_device_id :: c_enum where
  "ctu_can_fd_device_id_device_id = Enum ''ctu_can_fd_device_id_device_id''
     [(''CTU_CAN_FD_ID'', 0xcafd)]"

definition ctu_can_fd_mode_command_status_settings :: reg_union where
  "ctu_can_fd_mode_command_status_settings = Union ''ctu_can_fd_mode_command_status_settings'' (Ifdef
     [(''MODE'',
        [(''rst'', 1), (''lom'', 1), (''stm'', 1), (''afm'', 1), (''fde'', 1),
         (''rtrp'', 1), (''tsm'', 1), (''acf'', 1), (''reserved_8'', 1)]),
      (''COMMAND'',
        [(''abt'', 1), (''rrb'', 1), (''cdo'', 1), (''ercrst'', 1), (''rxfcrst'', 1),
         (''txfcrst'', 1), (''reserved_15'', 1)]),
      (''STATUS'',
        [(''rxne'', 1), (''dor'', 1), (''txnf'', 1), (''eft'', 1), (''rxs'', 1),
         (''txs'', 1), (''ewl'', 1), (''idle'', 1)]),
      (''SETTINGS'',
        [(''rtrle'', 1), (''rtrth'', 4), (''ilbp'', 1), (''ena'', 1), (''nisofd'', 1)])]
     [(''nisofd'', 1), (''ena'', 1), (''ilbp'', 1), (''rtrth'', 4), (''rtrle'', 1),
      (''idle'', 1), (''ewl'', 1), (''txs'', 1), (''rxs'', 1), (''eft'', 1),
      (''txnf'', 1), (''dor'', 1), (''rxne'', 1), (''reserved_15'', 1), (''txfcrst'', 1),
      (''rxfcrst'', 1), (''ercrst'', 1), (''cdo'', 1), (''rrb'', 1), (''abt'', 1),
      (''reserved_8'', 1), (''acf'', 1), (''tsm'', 1), (''rtrp'', 1), (''fde'', 1),
      (''afm'', 1), (''stm'', 1), (''lom'', 1), (''rst'', 1)])"

definition ctu_can_fd_mode_lom :: c_enum where
  "ctu_can_fd_mode_lom = Enum ''ctu_can_fd_mode_lom''
     [(''LOM_DISABLED'', 0x0), (''LOM_ENABLED'', 0x1)]"

definition ctu_can_fd_mode_stm :: c_enum where
  "ctu_can_fd_mode_stm = Enum ''ctu_can_fd_mode_stm''
     [(''STM_DISABLED'', 0x0), (''STM_ENABLED'', 0x1)]"

definition ctu_can_fd_mode_afm :: c_enum where
  "ctu_can_fd_mode_afm = Enum ''ctu_can_fd_mode_afm''
     [(''AFM_DISABLED'', 0x0), (''AFM_ENABLED'', 0x1)]"

definition ctu_can_fd_mode_fde :: c_enum where
  "ctu_can_fd_mode_fde = Enum ''ctu_can_fd_mode_fde''
     [(''FDE_DISABLE'', 0x0), (''FDE_ENABLE'', 0x1)]"

definition ctu_can_fd_mode_rtrp :: c_enum where
  "ctu_can_fd_mode_rtrp = Enum ''ctu_can_fd_mode_rtrp''
     [(''RTR_EXTRA'', 0x0), (''RTR_STANDARD'', 0x1)]"

definition ctu_can_fd_mode_tsm :: c_enum where
  "ctu_can_fd_mode_tsm = Enum ''ctu_can_fd_mode_tsm''
     [(''TSM_DISABLE'', 0x0), (''TSM_ENABLE'', 0x1)]"

definition ctu_can_fd_mode_acf :: c_enum where
  "ctu_can_fd_mode_acf = Enum ''ctu_can_fd_mode_acf''
     [(''ACF_DISABLED'', 0x0), (''ACF_ENABLED'', 0x1)]"

definition ctu_can_fd_settings_rtrle :: c_enum where
  "ctu_can_fd_settings_rtrle = Enum ''ctu_can_fd_settings_rtrle''
     [(''RTRLE_DISABLED'', 0x0), (''RTRLE_ENABLED'', 0x1)]"

definition ctu_can_fd_settings_ilbp :: c_enum where
  "ctu_can_fd_settings_ilbp = Enum ''ctu_can_fd_settings_ilbp''
     [(''INT_LOOP_DISABLED'', 0x0), (''INT_LOOP_ENABLED'', 0x1)]"

definition ctu_can_fd_settings_ena :: c_enum where
  "ctu_can_fd_settings_ena = Enum ''ctu_can_fd_settings_ena''
     [(''DISABLED'', 0x0), (''ENABLED'', 0x1)]"

definition ctu_can_fd_settings_nisofd :: c_enum where
  "ctu_can_fd_settings_nisofd = Enum ''ctu_can_fd_settings_nisofd''
     [(''ISO_FD'', 0x0), (''NON_ISO_FD'', 0x1)]"

definition ctu_can_fd_int_stat :: reg_union where
  "ctu_can_fd_int_stat = Union ''ctu_can_fd_int_stat'' (Ifdef
     [(''INT_STAT'',
        [(''rxi'', 1), (''txi'', 1), (''ewli'', 1), (''doi'', 1), (''epi'', 1),
         (''ali'', 1), (''bei'', 1), (''lfi'', 1), (''rxfi'', 1), (''bsi'', 1),
         (''rbnei'', 1), (''txbhci'', 1), (''reserved_31_12'', 20)])]
     [(''reserved_31_12'', 20), (''txbhci'', 1), (''rbnei'', 1), (''bsi'', 1),
      (''rxfi'', 1), (''lfi'', 1), (''bei'', 1), (''ali'', 1), (''epi'', 1),
      (''doi'', 1), (''ewli'', 1), (''txi'', 1), (''rxi'', 1)])"

definition ctu_can_fd_int_ena_set :: reg_union where
  "ctu_can_fd_int_ena_set = Union ''ctu_can_fd_int_ena_set'' (Ifdef
     [(''INT_ENA_SET'',
        [(''int_ena_set'', 12), (''reserved_31_12'', 20)])]
     [(''reserved_31_12'', 20), (''int_ena_set'', 12)])"

definition ctu_can_fd_int_ena_clr :: reg_union where
  "ctu_can_fd_int_ena_clr = Union ''ctu_can_fd_int_ena_clr'' (Ifdef
     [(''INT_ENA_CLR'',
        [(''int_ena_clr'', 12), (''reserved_31_12'', 20)])]
     [(''reserved_31_12'', 20), (''int_ena_clr'', 12)])"

definition ctu_can_fd_int_mask_set :: reg_union where
  "ctu_can_fd_int_mask_set = Union ''ctu_can_fd_int_mask_set'' (Ifdef
     [(''INT_MASK_SET'',
        [(''int_mask_set'', 12), (''reserved_31_12'', 20)])]
     [(''reserved_31_12'', 20), (''int_mask_set'', 12)])"

definition ctu_can_fd_int_mask_clr :: reg_union where
  "ctu_can_fd_int_mask_clr = Union ''ctu_can_fd_int_mask_clr'' (Ifdef
     [(''INT_MASK_CLR'',
        [(''int_mask_clr'', 12), (''reserved_31_12'', 20)])]
     [(''reserved_31_12'', 20), (''int_mask_clr'', 12)])"

definition ctu_can_fd_btr :: reg_union where
  "ctu_can_fd_btr = Union ''ctu_can_fd_btr'' (Ifdef
     [(''BTR'',
        [(''prop'', 7), (''ph1'', 6), (''ph2'', 6), (''brp'', 8), (''sjw'', 5)])]
     [(''sjw'', 5), (''brp'', 8), (''ph2'', 6), (''ph1'', 6), (''prop'', 7)])"

definition ctu_can_fd_btr_fd :: reg_union where
  "ctu_can_fd_btr_fd = Union ''ctu_can_fd_btr_fd'' (Ifdef
     [(''BTR_FD'',
        [(''prop_fd'', 6), (''reserved_6'', 1), (''ph1_fd'', 5), (''reserved_12'', 1),
         (''ph2_fd'', 5), (''reserved_18'', 1), (''brp_fd'', 8), (''sjw_fd'', 5)])]
     [(''sjw_fd'', 5), (''brp_fd'', 8), (''reserved_18'', 1), (''ph2_fd'', 5),
      (''reserved_12'', 1), (''ph1_fd'', 5), (''reserved_6'', 1), (''prop_fd'', 6)])"

definition ctu_can_fd_ewl_erp_fault_state :: reg_union where
  "ctu_can_fd_ewl_erp_fault_state = Union ''ctu_can_fd_ewl_erp_fault_state'' (Ifdef
     [(''EWL'',
        [(''ew_limit'', 8)]),
      (''ERP'',
        [(''erp_limit'', 8)]),
      (''FAULT_STATE'',
        [(''era'', 1), (''erp'', 1), (''bof'', 1), (''reserved_31_19'', 13)])]
     [(''reserved_31_19'', 13), (''bof'', 1), (''erp'', 1), (''era'', 1),
      (''erp_limit'', 8), (''ew_limit'', 8)])"

definition ctu_can_fd_rxc_txc :: reg_union where
  "ctu_can_fd_rxc_txc = Union ''ctu_can_fd_rxc_txc'' (Ifdef
     [(''RXC'',
        [(''rxc_val'', 16)]),
      (''TXC'',
        [(''txc_val'', 16)])]
     [(''txc_val'', 16), (''rxc_val'', 16)])"

definition ctu_can_fd_err_norm_err_fd :: reg_union where
  "ctu_can_fd_err_norm_err_fd = Union ''ctu_can_fd_err_norm_err_fd'' (Ifdef
     [(''ERR_NORM'',
        [(''err_norm_val'', 16)]),
      (''ERR_FD'',
        [(''err_fd_val'', 16)])]
     [(''err_fd_val'', 16), (''err_norm_val'', 16)])"

definition ctu_can_fd_ctr_pres :: reg_union where
  "ctu_can_fd_ctr_pres = Union ''ctu_can_fd_ctr_pres'' (Ifdef
     [(''CTR_PRES'',
        [(''ctpv'', 9), (''ptx'', 1), (''prx'', 1), (''enorm'', 1), (''efd'', 1),
         (''reserved_31_13'', 19)])]
     [(''reserved_31_13'', 19), (''efd'', 1), (''enorm'', 1), (''prx'', 1), (''ptx'', 1),
      (''ctpv'', 9)])"

definition ctu_can_fd_filter_a_mask :: reg_union where
  "ctu_can_fd_filter_a_mask = Union ''ctu_can_fd_filter_a_mask'' (Ifdef
     [(''FILTER_A_MASK'',
        [(''bit_mask_a_val'', 29), (''reserved_31_29'', 3)])]
     [(''reserved_31_29'', 3), (''bit_mask_a_val'', 29)])"

definition ctu_can_fd_filter_a_val :: reg_union where
  "ctu_can_fd_filter_a_val = Union ''ctu_can_fd_filter_a_val'' (Ifdef
     [(''FILTER_A_VAL'',
        [(''bit_val_a_val'', 29), (''reserved_31_29'', 3)])]
     [(''reserved_31_29'', 3), (''bit_val_a_val'', 29)])"

definition ctu_can_fd_filter_b_mask :: reg_union where
  "ctu_can_fd_filter_b_mask = Union ''ctu_can_fd_filter_b_mask'' (Ifdef
     [(''FILTER_B_MASK'',
        [(''bit_mask_b_val'', 29), (''reserved_31_29'', 3)])]
     [(''reserved_31_29'', 3), (''bit_mask_b_val'', 29)])"

definition ctu_can_fd_filter_b_val :: reg_union where
  "ctu_can_fd_filter_b_val = Union ''ctu_can_fd_filter_b_val'' (Ifdef
     [(''FILTER_B_VAL'',
        [(''bit_val_b_val'', 29), (''reserved_31_29'', 3)])]
     [(''reserved_31_29'', 3), (''bit_val_b_val'', 29)])"

definition ctu_can_fd_filter_c_mask :: reg_union where
  "ctu_can_fd_filter_c_mask = Union ''ctu_can_fd_filter_c_mask'' (Ifdef
     [(''FILTER_C_MASK'',
        [(''bit_mask_c_val'', 29), (''reserved_31_29'', 3)])]
     [(''reserved_31_29'', 3), (''bit_mask_c_val'', 29)])"

definition ctu_can_fd_filter_c_val :: reg_union where
  "ctu_can_fd_filter_c_val = Union ''ctu_can_fd_filter_c_val'' (Ifdef
     [(''FILTER_C_VAL'',
        [(''bit_val_c_val'', 29), (''reserved_31_29'', 3)])]
     [(''reserved_31_29'', 3), (''bit_val_c_val'', 29)])"

definition ctu_can_fd_filter_ran_low :: reg_union where
  "ctu_can_fd_filter_ran_low = Union ''ctu_can_fd_filter_ran_low'' (Ifdef
     [(''FILTER_RAN_LOW'',
        [(''bit_ran_low_val'', 29), (''reserved_31_29'', 3)])]
     [(''reserved_31_29'', 3), (''bit_ran_low_val'', 29)])"

definition ctu_can_fd_filter_ran_high :: reg_union where
  "ctu_can_fd_filter_ran_high = Union ''ctu_can_fd_filter_ran_high'' (Ifdef
     [(''FILTER_RAN_HIGH'',
        [(''bit_ran_high_val'', 29), (''reserved_31_29'', 3)])]
     [(''reserved_31_29'', 3), (''bit_ran_high_val'', 29)])"

definition ctu_can_fd_filter_control_filter_status :: reg_union where
  "ctu_can_fd_filter_control_filter_status = Union ''ctu_can_fd_filter_control_filter_status'' (Ifdef
     [(''FILTER_CONTROL'',
        [(''fanb'', 1), (''fane'', 1), (''fafb'', 1), (''fafe'', 1), (''fbnb'', 1),
         (''fbne'', 1), (''fbfb'', 1), (''fbfe'', 1), (''fcnb'', 1), (''fcne'', 1),
         (''fcfb'', 1), (''fcfe'', 1), (''frnb'', 1), (''frne'', 1), (''frfb'', 1),
         (''frfe'', 1)]),
      (''FILTER_STATUS'',
        [(''sfa'', 1), (''sfb'', 1), (''sfc'', 1), (''sfr'', 1),
         (''reserved_31_20'', 12)])]
     [(''reserved_31_20'', 12), (''sfr'', 1), (''sfc'', 1), (''sfb'', 1), (''sfa'', 1),
      (''frfe'', 1), (''frfb'', 1), (''frne'', 1), (''frnb'', 1), (''fcfe'', 1),
      (''fcfb'', 1), (''fcne'', 1), (''fcnb'', 1), (''fbfe'', 1), (''fbfb'', 1),
      (''fbne'', 1), (''fbnb'', 1), (''fafe'', 1), (''fafb'', 1), (''fane'', 1),
      (''fanb'', 1)])"

definition ctu_can_fd_rx_mem_info :: reg_union where
  "ctu_can_fd_rx_mem_info = Union ''ctu_can_fd_rx_mem_info'' (Ifdef
     [(''RX_MEM_INFO'',
        [(''rx_buff_size'', 13), (''reserved_15_13'', 3), (''rx_mem_free'', 13),
         (''reserved_31_29'', 3)])]
     [(''reserved_31_29'', 3), (''rx_mem_free'', 13), (''reserved_15_13'', 3),
      (''rx_buff_size'', 13)])"

definition ctu_can_fd_rx_pointers :: reg_union where
  "ctu_can_fd_rx_pointers = Union ''ctu_can_fd_rx_pointers'' (Ifdef
     [(''RX_POINTERS'',
        [(''rx_wpp'', 12), (''reserved_15_12'', 4), (''rx_rpp'', 12),
         (''reserved_31_28'', 4)])]
     [(''reserved_31_28'', 4), (''rx_rpp'', 12), (''reserved_15_12'', 4),
      (''rx_wpp'', 12)])"

definition ctu_can_fd_rx_status_rx_settings :: reg_union where
  "ctu_can_fd_rx_status_rx_settings = Union ''ctu_can_fd_rx_status_rx_settings'' (Ifdef
     [(''RX_STATUS'',
        [(''rxe'', 1), (''rxf'', 1), (''reserved_3_2'', 2), (''rxfrc'', 11),
         (''reserved_15'', 1)]),
      (''RX_SETTINGS'',
        [(''rtsop'', 1), (''reserved_31_17'', 15)])]
     [(''reserved_31_17'', 15), (''rtsop'', 1), (''reserved_15'', 1), (''rxfrc'', 11),
      (''reserved_3_2'', 2), (''rxf'', 1), (''rxe'', 1)])"

definition ctu_can_fd_rx_settings_rtsop :: c_enum where
  "ctu_can_fd_rx_settings_rtsop = Enum ''ctu_can_fd_rx_settings_rtsop''
     [(''RTS_END'', 0x0), (''RTS_BEG'', 0x1)]"

definition ctu_can_fd_rx_data :: reg_union where
  "ctu_can_fd_rx_data = Union ''ctu_can_fd_rx_data'' (Plain
     [(''RX_DATA'',
        [(''rx_data'', 32)])])"

definition ctu_can_fd_tx_status :: reg_union where
  "ctu_can_fd_tx_status = Union ''ctu_can_fd_tx_status'' (Ifdef
     [(''TX_STATUS'',
        [(''tx1s'', 4), (''tx2s'', 4), (''tx3s'', 4), (''tx4s'', 4),
         (''reserved_31_16'', 16)])]
     [(''reserved_31_16'', 16), (''tx4s'', 4), (''tx3s'', 4), (''tx2s'', 4),
      (''tx1s'', 4)])"

definition ctu_can_fd_tx_status_tx1s :: c_enum where
  "ctu_can_fd_tx_status_tx1s = Enum ''ctu_can_fd_tx_status_tx1s''
     [(''TXT_RDY'', 0x1), (''TXT_TRAN'', 0x2), (''TXT_ABTP'', 0x3), (''TXT_TOK'', 0x4),
      (''TXT_ERR'', 0x6), (''TXT_ABT'', 0x7), (''TXT_ETY'', 0x8)]"

definition ctu_can_fd_tx_command :: reg_union where
  "ctu_can_fd_tx_command = Union ''ctu_can_fd_tx_command'' (Ifdef
     [(''TX_COMMAND'',
        [(''txce'', 1), (''txcr'', 1), (''txca'', 1), (''reserved_7_3'', 5),
         (''txb1'', 1), (''txb2'', 1), (''txb3'', 1), (''txb4'', 1),
         (''reserved_31_12'', 20)])]
     [(''reserved_31_12'', 20), (''txb4'', 1), (''txb3'', 1), (''txb2'', 1),
      (''txb1'', 1), (''reserved_7_3'', 5), (''txca'', 1), (''txcr'', 1), (''txce'', 1)])"

definition ctu_can_fd_tx_priority :: reg_union where
  "ctu_can_fd_tx_priority = Union ''ctu_can_fd_tx_priority'' (Ifdef
     [(''TX_PRIORITY'',
        [(''txt1p'', 3), (''reserved_3'', 1), (''txt2p'', 3), (''reserved_7'', 1),
         (''txt3p'', 3), (''reserved_11'', 1), (''txt4p'', 3), (''reserved_31_15'', 17)])]
     [(''reserved_31_15'', 17), (''txt4p'', 3), (''reserved_11'', 1), (''txt3p'', 3),
      (''reserved_7'', 1), (''txt2p'', 3), (''reserved_3'', 1), (''txt1p'', 3)])"

definition ctu_can_fd_err_capt_alc :: reg_union where
  "ctu_can_fd_err_capt_alc = Union ''ctu_can_fd_err_capt_alc'' (Ifdef
     [(''ERR_CAPT'',
        [(''err_pos'', 5), (''err_type'', 3)]),
      (''ALC'',
        [(''alc_bit'', 5), (''alc_id_field'', 3), (''reserved_31_16'', 16)])]
     [(''reserved_31_16'', 16), (''alc_id_field'', 3), (''alc_bit'', 5),
      (''err_type'', 3), (''err_pos'', 5)])"

definition ctu_can_fd_err_capt_err_pos :: c_enum where
  "ctu_can_fd_err_capt_err_pos = Enum ''ctu_can_fd_err_capt_err_pos''
     [(''ERC_POS_SOF'', 0x0), (''ERC_POS_ARB'', 0x1), (''ERC_POS_CTRL'', 0x2),
      (''ERC_POS_DATA'', 0x3), (''ERC_POS_CRC'', 0x4), (''ERC_POS_ACK'', 0x5),
      (''ERC_POS_INTF'', 0x6), (''ERC_POS_ERR'', 0x7), (''ERC_POS_OVRL'', 0x8),
      (''ERC_POS_OTHER'', 0x1f)]"

definition ctu_can_fd_err_capt_err_type :: c_enum where
  "ctu_can_fd_err_capt_err_type = Enum ''ctu_can_fd_err_capt_err_type''
     [(''ERC_BIT_ERR'', 0x0), (''ERC_CRC_ERR'', 0x1), (''ERC_FRM_ERR'', 0x2),
      (''ERC_ACK_ERR'', 0x3), (''ERC_STUF_ERR'', 0x4)]"

definition ctu_can_fd_alc_alc_id_field :: c_enum where
  "ctu_can_fd_alc_alc_id_field = Enum ''ctu_can_fd_alc_alc_id_field''
     [(''ALC_BASE_ID'', 0x0), (''ALC_SRR_RTR'', 0x1), (''ALC_IDE'', 0x2),
      (''ALC_EXTENSION'', 0x3), (''ALC_RTR'', 0x4)]"

definition ctu_can_fd_trv_delay_ssp_cfg :: reg_union where
  "ctu_can_fd_trv_delay_ssp_cfg = Union ''ctu_can_fd_trv_delay_ssp_cfg'' (Ifdef
     [(''TRV_DELAY'',
        [(''trv_delay_value'', 16)]),
      (''SSP_CFG'',
        [(''ssp_offset'', 7), (''reserved_23'', 1), (''ssp_src'', 2),
         (''reserved_31_26'', 6)])]
     [(''reserved_31_26'', 6), (''ssp_src'', 2), (''reserved_23'', 1),
      (''ssp_offset'', 7), (''trv_delay_value'', 16)])"

definition ctu_can_fd_ssp_cfg_ssp_src :: c_enum where
  "ctu_can_fd_ssp_cfg_ssp_src = Enum ''ctu_can_fd_ssp_cfg_ssp_src''
     [(''SSP_SRC_MEASURED'', 0x0), (''SSP_SRC_MEAS_N_OFFSET'', 0x1),
      (''SSP_SRC_OFFSET'', 0x2)]"

definition ctu_can_fd_rx_counter :: reg_union where
  "ctu_can_fd_rx_counter = Union ''ctu_can_fd_rx_counter'' (Plain
     [(''RX_COUNTER'',
        [(''rx_counter_val'', 32)])])"

definition ctu_can_fd_tx_counter :: reg_union where
  "ctu_can_fd_tx_counter = Union ''ctu_can_fd_tx_counter'' (Plain
     [(''TX_COUNTER'',
        [(''tx_counter_val'', 32)])])"

definition ctu_can_fd_debug_register :: reg_union where
  "ctu_can_fd_debug_register = Union ''ctu_can_fd_debug_register'' (Ifdef
     [(''DEBUG_REGISTER'',
        [(''stuff_count'', 3), (''destuff_count'', 3), (''pc_arb'', 1), (''pc_con'', 1),
         (''pc_dat'', 1), (''pc_crc'', 1), (''pc_eof'', 1), (''pc_ovr'', 1),
         (''pc_int'', 1), (''reserved_31_13'', 19)])]
     [(''reserved_31_13'', 19), (''pc_int'', 1), (''pc_ovr'', 1), (''pc_eof'', 1),
      (''pc_crc'', 1), (''pc_dat'', 1), (''pc_con'', 1), (''pc_arb'', 1),
      (''destuff_count'', 3), (''stuff_count'', 3)])"

definition ctu_can_fd_yolo_reg :: reg_union where
  "ctu_can_fd_yolo_reg = Union ''ctu_can_fd_yolo_reg'' (Plain
     [(''YOLO_REG'',
        [(''yolo_val'', 32)])])"

definition ctu_can_fd_timestamp_low :: reg_union where
  "ctu_can_fd_timestamp_low = Union ''ctu_can_fd_timestamp_low'' (Plain
     [(''TIMESTAMP_LOW'',
        [(''timestamp_low'', 32)])])"

definition ctu_can_fd_timestamp_high :: reg_union where
  "ctu_can_fd_timestamp_high = Union ''ctu_can_fd_timestamp_high'' (Plain
     [(''TIMESTAMP_HIGH'',
        [(''timestamp_high'', 32)])])"

definition ctu_can_fd_log_trig_config :: reg_union where
  "ctu_can_fd_log_trig_config = Union ''ctu_can_fd_log_trig_config'' (Ifdef
     [(''LOG_TRIG_CONFIG'',
        [(''t_sof'', 1), (''t_arbl'', 1), (''t_rev'', 1), (''t_trv'', 1), (''t_ovl'', 1),
         (''t_err'', 1), (''t_brs'', 1), (''t_usrw'', 1), (''t_arbs'', 1),
         (''t_ctrs'', 1), (''t_dats'', 1), (''t_crcs'', 1), (''t_ackr'', 1),
         (''t_acknr'', 1), (''t_ewlr'', 1), (''t_erpc'', 1), (''t_trs'', 1),
         (''t_res'', 1), (''reserved_31_18'', 14)])]
     [(''reserved_31_18'', 14), (''t_res'', 1), (''t_trs'', 1), (''t_erpc'', 1),
      (''t_ewlr'', 1), (''t_acknr'', 1), (''t_ackr'', 1), (''t_crcs'', 1),
      (''t_dats'', 1), (''t_ctrs'', 1), (''t_arbs'', 1), (''t_usrw'', 1), (''t_brs'', 1),
      (''t_err'', 1), (''t_ovl'', 1), (''t_trv'', 1), (''t_rev'', 1), (''t_arbl'', 1),
      (''t_sof'', 1)])"

definition ctu_can_fd_log_capt_config :: reg_union where
  "ctu_can_fd_log_capt_config = Union ''ctu_can_fd_log_capt_config'' (Ifdef
     [(''LOG_CAPT_CONFIG'',
        [(''c_sof'', 1), (''c_arbl'', 1), (''c_rev'', 1), (''c_trv'', 1), (''c_ovl'', 1),
         (''c_err'', 1), (''c_brs'', 1), (''c_arbs'', 1), (''c_ctrs'', 1),
         (''c_dats'', 1), (''c_crcs'', 1), (''c_ackr'', 1), (''c_acknr'', 1),
         (''c_ewlr'', 1), (''c_erc'', 1), (''c_trs'', 1), (''c_res'', 1),
         (''c_syne'', 1), (''c_stuff'', 1), (''c_destuff'', 1), (''c_ovr'', 1),
         (''reserved_31_21'', 11)])]
     [(''reserved_31_21'', 11), (''c_ovr'', 1), (''c_destuff'', 1), (''c_stuff'', 1),
      (''c_syne'', 1), (''c_res'', 1), (''c_trs'', 1), (''c_erc'', 1), (''c_ewlr'', 1),
      (''c_acknr'', 1), (''c_ackr'', 1), (''c_crcs'', 1), (''c_dats'', 1),
      (''c_ctrs'', 1), (''c_arbs'', 1), (''c_brs'', 1), (''c_err'', 1), (''c_ovl'', 1),
      (''c_trv'', 1), (''c_rev'', 1), (''c_arbl'', 1), (''c_sof'', 1)])"

definition ctu_can_fd_log_status_log_pointers :: reg_union where
  "ctu_can_fd_log_status_log_pointers = Union ''ctu_can_fd_log_status_log_pointers'' (Ifdef
     [(''LOG_STATUS'',
        [(''log_cfg'', 1), (''log_rdy'', 1), (''log_run'', 1), (''reserved_6_3'', 4),
         (''log_exist'', 1), (''log_size'', 8)]),
      (''LOG_POINTERS'',
        [(''log_wpp'', 8), (''log_rpp'', 8)])]
     [(''log_rpp'', 8), (''log_wpp'', 8), (''log_size'', 8), (''log_exist'', 1),
      (''reserved_6_3'', 4), (''log_run'', 1), (''log_rdy'', 1), (''log_cfg'', 1)])"

definition ctu_can_fd_log_command :: reg_union where
  "ctu_can_fd_log_command = Union ''ctu_can_fd_log_command'' (Ifdef
     [(''LOG_COMMAND'',
        [(''log_str'', 1), (''log_abt'', 1), (''log_up'', 1), (''log_down'', 1),
         (''reserved_31_4'', 28)])]
     [(''reserved_31_4'', 28), (''log_down'', 1), (''log_up'', 1), (''log_abt'', 1),
      (''log_str'', 1)])"

definition ctu_can_fd_log_capt_event_1 :: reg_union where
  "ctu_can_fd_log_capt_event_1 = Union ''ctu_can_fd_log_capt_event_1'' (Plain
     [(''LOG_CAPT_EVENT_1'',
        [(''event_ts_48_16'', 32)])])"

definition ctu_can_fd_log_capt_event_2 :: reg_union where
  "ctu_can_fd_log_capt_event_2 = Union ''ctu_can_fd_log_capt_event_2'' (Ifdef
     [(''LOG_CAPT_EVENT_2'',
        [(''evnt_type'', 5), (''evnt_den'', 3), (''evnt_det'', 5), (''evnt_dea'', 3),
         (''event_ts_15_0'', 16)])]
     [(''event_ts_15_0'', 16), (''evnt_dea'', 3), (''evnt_det'', 5), (''evnt_den'', 3),
      (''evnt_type'', 5)])"

definition ctu_can_fd_log_capt_event_2_evnt_type :: c_enum where
  "ctu_can_fd_log_capt_event_2_evnt_type = Enum ''ctu_can_fd_log_capt_event_2_evnt_type''
     [(''SOF_EVNT'', 0x1), (''ARBL_EVNT'', 0x2), (''FREC_EVNT'', 0x3),
      (''TRANV_EVNT'', 0x4), (''OVRL_EVNT'', 0x5), (''ERR_EVNT'', 0x6),
      (''BRS_EVNT'', 0x7), (''ARBS_EVNT'', 0x8), (''CONS_EVNT'', 0x9),
      (''DATS_EVNT'', 0xa), (''CRCS_EVNT'', 0xb), (''ACKR_EVNT'', 0xc),
      (''ACKN_EVNT'', 0xd), (''EWLR_EVNT'', 0xe), (''FCSC_EVNT'', 0xf),
      (''TS_EVNT'', 0x10), (''RS_EVNT'', 0x11), (''SE_EVNT'', 0x12),
      (''STF_EVNT'', 0x13), (''DSTF_EVNT'', 0x14), (''DOR_EVNT'', 0x15)]"

definition ctu_can_fd_log_capt_event_2_evnt_det :: c_enum where
  "ctu_can_fd_log_capt_event_2_evnt_det = Enum ''ctu_can_fd_log_capt_event_2_evnt_det''
     [(''ISN_FDSTF'', 0x0), (''ISN_FSTF'', 0x0), (''BIT_ERR'', 0x1), (''S_UP'', 0x1),
      (''IS_SYNC'', 0x1), (''IS_FDSTF'', 0x1), (''IS_FSTF'', 0x1), (''ST_ERR'', 0x2),
      (''S_DOWN'', 0x2), (''IS_PROP'', 0x2), (''CRC_ERR'', 0x4), (''IS_PH1'', 0x4),
      (''ACK_ERR'', 0x8), (''IS_PH2'', 0x8), (''FRM_ERR'', 0x10)]"

definition ctu_can_fd_log_capt_event_2_evnt_dea :: c_enum where
  "ctu_can_fd_log_capt_event_2_evnt_dea = Enum ''ctu_can_fd_log_capt_event_2_evnt_dea''
     [(''NO_SNC'', 0x0), (''HA_SNC'', 0x1), (''RE_SNC'', 0x2)]"

definition register_unions :: "reg_union list" where
  "register_unions =
    [ctu_can_fd_device_id_version,
     ctu_can_fd_mode_command_status_settings,
     ctu_can_fd_int_stat,
     ctu_can_fd_int_ena_set,
     ctu_can_fd_int_ena_clr,
     ctu_can_fd_int_mask_set,
     ctu_can_fd_int_mask_clr,
     ctu_can_fd_btr,
     ctu_can_fd_btr_fd,
     ctu_can_fd_ewl_erp_fault_state,
     ctu_can_fd_rxc_txc,
     ctu_can_fd_err_norm_err_fd,
     ctu_can_fd_ctr_pres,
     ctu_can_fd_filter_a_mask,
     ctu_can_fd_filter_a_val,
     ctu_can_fd_filter_b_mask,
     ctu_can_fd_filter_b_val,
     ctu_can_fd_filter_c_mask,
     ctu_can_fd_filter_c_val,
     ctu_can_fd_filter_ran_low,
     ctu_can_fd_filter_ran_high,
     ctu_can_fd_filter_control_filter_status,
     ctu_can_fd_rx_mem_info,
     ctu_can_fd_rx_pointers,
     ctu_can_fd_rx_status_rx_settings,
     ctu_can_fd_rx_data,
     ctu_can_fd_tx_status,
     ctu_can_fd_tx_command,
     ctu_can_fd_tx_priority,
     ctu_can_fd_err_capt_alc,
     ctu_can_fd_trv_delay_ssp_cfg,
     ctu_can_fd_rx_counter,
     ctu_can_fd_tx_counter,
     ctu_can_fd_debug_register,
     ctu_can_fd_yolo_reg,
     ctu_can_fd_timestamp_low,
     ctu_can_fd_timestamp_high,
     ctu_can_fd_log_trig_config,
     ctu_can_fd_log_capt_config,
     ctu_can_fd_log_status_log_pointers,
     ctu_can_fd_log_command,
     ctu_can_fd_log_capt_event_1,
     ctu_can_fd_log_capt_event_2]"

definition field_enums :: "c_enum list" where
  "field_enums =
    [ctu_can_fd_device_id_device_id,
     ctu_can_fd_mode_lom,
     ctu_can_fd_mode_stm,
     ctu_can_fd_mode_afm,
     ctu_can_fd_mode_fde,
     ctu_can_fd_mode_rtrp,
     ctu_can_fd_mode_tsm,
     ctu_can_fd_mode_acf,
     ctu_can_fd_settings_rtrle,
     ctu_can_fd_settings_ilbp,
     ctu_can_fd_settings_ena,
     ctu_can_fd_settings_nisofd,
     ctu_can_fd_rx_settings_rtsop,
     ctu_can_fd_tx_status_tx1s,
     ctu_can_fd_err_capt_err_pos,
     ctu_can_fd_err_capt_err_type,
     ctu_can_fd_alc_alc_id_field,
     ctu_can_fd_ssp_cfg_ssp_src,
     ctu_can_fd_log_capt_event_2_evnt_type,
     ctu_can_fd_log_capt_event_2_evnt_det,
     ctu_can_fd_log_capt_event_2_evnt_dea]"

subsection \<open>Register offsets\<close>

text \<open>The byte offset bound to the register \<open>r\<close> (\<^verbatim>\<open>CTU_CAN_FD_r\<close>), if there is one.\<close>

definition reg_offset :: "string \<Rightarrow> nat option" where
  "reg_offset r = map_of (e_consts ctu_can_fd_can_registers) (''CTU_CAN_FD_'' @ r)"

text \<open>
  The name of word \<open>k\<close> of transmit buffer \<open>n\<close>, \<^verbatim>\<open>TXTBn_DATA_k\<close>; \<open>k\<close> is given as it
  is written.
\<close>

definition dec_digit :: "nat \<Rightarrow> char" where
  "dec_digit n = ''0123456789'' ! (n mod 10)"

definition txtb_data :: "nat \<Rightarrow> string \<Rightarrow> string" where
  "txtb_data n k = ''TXTB'' @ [dec_digit n] @ ''_DATA_'' @ k"

text \<open>
  The registers a union describes are those its comments name. The first of them gives
  the byte offset of the union's word; the word spans four bytes from there.
\<close>

fun sections :: "struct_body \<Rightarrow> reg_section list" where
  "sections (Ifdef ss be) = ss"
| "sections (Plain ss) = ss"

definition union_regs :: "reg_union \<Rightarrow> string list" where
  "union_regs u = map fst (sections (u_body u))"

definition union_base :: "reg_union \<Rightarrow> nat option" where
  "union_base u = (case union_regs u of [] \<Rightarrow> None | r # rs \<Rightarrow> reg_offset r)"

definition word_span :: "nat \<Rightarrow> nat set" where
  "word_span b = {b ..< b + 4}"

subsection \<open>The two bit-field orders\<close>

text \<open>
  The preprocessor keeps one branch of each conditional: the first when
  \<^verbatim>\<open>__LITTLE_ENDIAN_BITFIELD\<close> is defined, the \<^verbatim>\<open>#else\<close> branch otherwise. A struct
  without the conditional reads the same either way.
\<close>

datatype bitorder = LITTLE_ENDIAN_BITFIELD | BIG_ENDIAN_BITFIELD

fun has_ifdef :: "struct_body \<Rightarrow> bool" where
  "has_ifdef (Ifdef ss be) = True"
| "has_ifdef (Plain ss) = False"

fun fields_of :: "bitorder \<Rightarrow> struct_body \<Rightarrow> bitfield list" where
  "fields_of LITTLE_ENDIAN_BITFIELD (Ifdef ss be) = concat (map snd ss)"
| "fields_of BIG_ENDIAN_BITFIELD (Ifdef ss be) = be"
| "fields_of ord (Plain ss) = concat (map snd ss)"

definition struct_fields :: "bitorder \<Rightarrow> reg_union \<Rightarrow> bitfield list" where
  "struct_fields ord u = fields_of ord (u_body u)"

text \<open>
  Where the fields lie in the 32-bit storage unit. C leaves the order of allocation to
  the implementation; the header relies on the convention its macro names. With
  little-endian bit-fields the first declared field takes the least significant bits and
  each next field follows above it; with big-endian bit-fields the first declared field
  takes the most significant bits and each next field follows below it. A placed field
  is its name, the number of its least significant bit, and its width.

  The functions describe a struct that fits one storage unit: \<open>place_down\<close> counts
  down from bit 32 with the truncating subtraction of \<open>nat\<close>, which is exact as long as
  the widths sum to at most 32. That they sum to exactly 32 for every union of the file
  is shown below.
\<close>

type_synonym placed = "string \<times> nat \<times> nat"

fun place_up :: "nat \<Rightarrow> bitfield list \<Rightarrow> placed list" where
  "place_up lsb [] = []"
| "place_up lsb ((n, w) # fs) = (n, lsb, w) # place_up (lsb + w) fs"

fun place_down :: "nat \<Rightarrow> bitfield list \<Rightarrow> placed list" where
  "place_down msb [] = []"
| "place_down msb ((n, w) # fs) = (n, msb - w, w) # place_down (msb - w) fs"

fun layout :: "bitorder \<Rightarrow> bitfield list \<Rightarrow> placed list" where
  "layout LITTLE_ENDIAN_BITFIELD fs = place_up 0 fs"
| "layout BIG_ENDIAN_BITFIELD fs = place_down 32 fs"

definition union_layout :: "bitorder \<Rightarrow> reg_union \<Rightarrow> placed list" where
  "union_layout ord u = layout ord (struct_fields ord u)"

text \<open>The bits a list of placed fields occupies.\<close>

fun covers :: "placed list \<Rightarrow> nat \<Rightarrow> bool" where
  "covers [] i = False"
| "covers ((n, lsb, w) # pl) i = ((lsb \<le> i \<and> i < lsb + w) \<or> covers pl i)"

text \<open>
  Padding fields are named after the bits they stand for: \<^verbatim>\<open>reserved_8\<close> is bit 8,
  \<^verbatim>\<open>reserved_31_12\<close> is bits 31 down to 12.
\<close>

definition is_reserved :: "string \<Rightarrow> bool" where
  "is_reserved n = (take 9 n = ''reserved_'')"

definition decimal :: "nat \<Rightarrow> string" where
  "decimal i = (if i < 10 then [dec_digit i] else [dec_digit (i div 10), dec_digit i])"

definition reserved_name :: "nat \<Rightarrow> nat \<Rightarrow> string" where
  "reserved_name lsb w =
     (if w = 1 then ''reserved_'' @ decimal lsb
      else ''reserved_'' @ decimal (lsb + w - 1) @ ''_'' @ decimal lsb)"

subsection \<open>The raw word and the bit-field view\<close>

text \<open>
  The members \<^verbatim>\<open>u32\<close> and \<^verbatim>\<open>s\<close> of a union share one 32-bit word. Reading a field
  of \<^verbatim>\<open>s\<close> takes its bits out of that word; assigning to a field replaces its bits by the
  value reduced modulo \<open>2 ^ width\<close> and leaves the other bits alone.
\<close>

definition get_field :: "32 word \<Rightarrow> nat \<Rightarrow> nat \<Rightarrow> 32 word" where
  "get_field v lsb w = take_bit w (drop_bit lsb v)"

definition set_field :: "32 word \<Rightarrow> nat \<Rightarrow> nat \<Rightarrow> 32 word \<Rightarrow> 32 word" where
  "set_field v lsb w x = (v AND NOT (push_bit lsb (mask w))) OR push_bit lsb (take_bit w x)"

text \<open>Reading every field of the struct, in the order of the layout.\<close>

definition read_fields :: "placed list \<Rightarrow> 32 word \<Rightarrow> 32 word list" where
  "read_fields pl v = map (\<lambda>(n, lsb, w). get_field v lsb w) pl"

text \<open>
  Assigning to the fields one after the other, starting from the word \<open>v\<close>; fields that
  are given no value keep their bits.
\<close>

fun write_fields :: "placed list \<Rightarrow> 32 word list \<Rightarrow> 32 word \<Rightarrow> 32 word" where
  "write_fields [] xs v = v"
| "write_fields ((n, lsb, w) # pl) [] v = v"
| "write_fields ((n, lsb, w) # pl) (x # xs) v = write_fields pl xs (set_field v lsb w x)"

text \<open>Putting field values back at their positions by shifting and or-ing.\<close>

fun reassemble :: "placed list \<Rightarrow> 32 word list \<Rightarrow> 32 word" where
  "reassemble ((n, lsb, w) # pl) (x # xs) = push_bit lsb x OR reassemble pl xs"
| "reassemble pl xs = 0"

text \<open>The values a list of assignments leaves in the fields: each reduced to its width.\<close>

fun truncated :: "placed list \<Rightarrow> 32 word list \<Rightarrow> 32 word list" where
  "truncated ((n, lsb, w) # pl) (x # xs) = take_bit w x # truncated pl xs"
| "truncated pl xs = []"

subsection \<open>Enumerations of field values\<close>

text \<open>
  An enumeration of field values is tagged \<^verbatim>\<open>ctu_can_fd_<register>_<field>\<close>, the register
  in lower case: it names values of the fields so called in the section of that register.
\<close>

definition lower :: "char \<Rightarrow> char" where
  "lower c = (case map_of (zip ''ABCDEFGHIJKLMNOPQRSTUVWXYZ'' ''abcdefghijklmnopqrstuvwxyz'') c of
                None \<Rightarrow> c | Some d \<Rightarrow> d)"

fun strip_prefix :: "string \<Rightarrow> string \<Rightarrow> string option" where
  "strip_prefix [] s = Some s"
| "strip_prefix (c # p) [] = None"
| "strip_prefix (c # p) (d # s) = (if c = d then strip_prefix p s else None)"

text \<open>
  The widths of the fields of one section that the rest \<open>t\<close> of a tag
  (\<^verbatim>\<open><register>_<field>\<close>) names.
\<close>

definition section_enum_widths :: "string \<Rightarrow> reg_section \<Rightarrow> nat list" where
  "section_enum_widths t sec =
     (case sec of (r, fs) \<Rightarrow>
        (case strip_prefix (map lower r @ ''_'') t of
           None \<Rightarrow> []
         | Some f \<Rightarrow> map snd (filter (\<lambda>(n, w). n = f) fs)))"

definition union_enum_widths :: "string \<Rightarrow> reg_union \<Rightarrow> nat list" where
  "union_enum_widths t u = concat (map (section_enum_widths t) (sections (u_body u)))"

text \<open>The widths of all fields of the file an enumeration names values of.\<close>

definition enum_field_widths :: "c_enum \<Rightarrow> nat list" where
  "enum_field_widths e =
     (case strip_prefix ''ctu_can_fd_'' (e_tag e) of
        None \<Rightarrow> []
      | Some t \<Rightarrow> concat (map (union_enum_widths t) register_unions))"

definition names_of_value :: "c_enum \<Rightarrow> nat \<Rightarrow> string list" where
  "names_of_value e v = map fst (filter (\<lambda>(n, c). c = v) (e_consts e))"

definition field_width :: "reg_union \<Rightarrow> string \<Rightarrow> nat option" where
  "field_width u f = map_of (struct_fields LITTLE_ENDIAN_BITFIELD u) f"

section \<open>Evaluating the tables\<close>

lemmas union_defs =
  ctu_can_fd_device_id_version_def ctu_can_fd_mode_command_status_settings_def
  ctu_can_fd_int_stat_def ctu_can_fd_int_ena_set_def ctu_can_fd_int_ena_clr_def
  ctu_can_fd_int_mask_set_def ctu_can_fd_int_mask_clr_def ctu_can_fd_btr_def
  ctu_can_fd_btr_fd_def ctu_can_fd_ewl_erp_fault_state_def ctu_can_fd_rxc_txc_def
  ctu_can_fd_err_norm_err_fd_def ctu_can_fd_ctr_pres_def ctu_can_fd_filter_a_mask_def
  ctu_can_fd_filter_a_val_def ctu_can_fd_filter_b_mask_def ctu_can_fd_filter_b_val_def
  ctu_can_fd_filter_c_mask_def ctu_can_fd_filter_c_val_def ctu_can_fd_filter_ran_low_def
  ctu_can_fd_filter_ran_high_def ctu_can_fd_filter_control_filter_status_def
  ctu_can_fd_rx_mem_info_def ctu_can_fd_rx_pointers_def
  ctu_can_fd_rx_status_rx_settings_def ctu_can_fd_rx_data_def ctu_can_fd_tx_status_def
  ctu_can_fd_tx_command_def ctu_can_fd_tx_priority_def ctu_can_fd_err_capt_alc_def
  ctu_can_fd_trv_delay_ssp_cfg_def ctu_can_fd_rx_counter_def ctu_can_fd_tx_counter_def
  ctu_can_fd_debug_register_def ctu_can_fd_yolo_reg_def ctu_can_fd_timestamp_low_def
  ctu_can_fd_timestamp_high_def ctu_can_fd_log_trig_config_def
  ctu_can_fd_log_capt_config_def ctu_can_fd_log_status_log_pointers_def
  ctu_can_fd_log_command_def ctu_can_fd_log_capt_event_1_def
  ctu_can_fd_log_capt_event_2_def

lemmas enum_defs =
  ctu_can_fd_device_id_device_id_def ctu_can_fd_mode_lom_def ctu_can_fd_mode_stm_def
  ctu_can_fd_mode_afm_def ctu_can_fd_mode_fde_def ctu_can_fd_mode_rtrp_def
  ctu_can_fd_mode_tsm_def ctu_can_fd_mode_acf_def ctu_can_fd_settings_rtrle_def
  ctu_can_fd_settings_ilbp_def ctu_can_fd_settings_ena_def ctu_can_fd_settings_nisofd_def
  ctu_can_fd_rx_settings_rtsop_def ctu_can_fd_tx_status_tx1s_def
  ctu_can_fd_err_capt_err_pos_def ctu_can_fd_err_capt_err_type_def
  ctu_can_fd_alc_alc_id_field_def ctu_can_fd_ssp_cfg_ssp_src_def
  ctu_can_fd_log_capt_event_2_evnt_type_def ctu_can_fd_log_capt_event_2_evnt_det_def
  ctu_can_fd_log_capt_event_2_evnt_dea_def

lemma lower_chars:
  "lower CHR ''A'' = CHR ''a''"
  "lower CHR ''B'' = CHR ''b''"
  "lower CHR ''C'' = CHR ''c''"
  "lower CHR ''D'' = CHR ''d''"
  "lower CHR ''E'' = CHR ''e''"
  "lower CHR ''F'' = CHR ''f''"
  "lower CHR ''G'' = CHR ''g''"
  "lower CHR ''H'' = CHR ''h''"
  "lower CHR ''I'' = CHR ''i''"
  "lower CHR ''J'' = CHR ''j''"
  "lower CHR ''K'' = CHR ''k''"
  "lower CHR ''L'' = CHR ''l''"
  "lower CHR ''M'' = CHR ''m''"
  "lower CHR ''N'' = CHR ''n''"
  "lower CHR ''O'' = CHR ''o''"
  "lower CHR ''P'' = CHR ''p''"
  "lower CHR ''Q'' = CHR ''q''"
  "lower CHR ''R'' = CHR ''r''"
  "lower CHR ''S'' = CHR ''s''"
  "lower CHR ''T'' = CHR ''t''"
  "lower CHR ''U'' = CHR ''u''"
  "lower CHR ''V'' = CHR ''v''"
  "lower CHR ''W'' = CHR ''w''"
  "lower CHR ''X'' = CHR ''x''"
  "lower CHR ''Y'' = CHR ''y''"
  "lower CHR ''Z'' = CHR ''z''"
  "lower CHR ''0'' = CHR ''0''"
  "lower CHR ''1'' = CHR ''1''"
  "lower CHR ''2'' = CHR ''2''"
  "lower CHR ''3'' = CHR ''3''"
  "lower CHR ''4'' = CHR ''4''"
  "lower CHR ''5'' = CHR ''5''"
  "lower CHR ''6'' = CHR ''6''"
  "lower CHR ''7'' = CHR ''7''"
  "lower CHR ''8'' = CHR ''8''"
  "lower CHR ''9'' = CHR ''9''"
  "lower CHR ''_'' = CHR ''_''"
  by (simp_all add: lower_def)

text \<open>Looking a key up in an association list, one entry at a time.\<close>

lemma lookup_here: "map_of ((k, v) # t) k = Some v"
  by simp

lemma lookup_next: "k' \<noteq> k \<Longrightarrow> map_of t k = r \<Longrightarrow> map_of ((k', v) # t) k = r"
  by simp

lemma reg_offsets:
  "reg_offset ''DEVICE_ID'' = Some 0x0"
  "reg_offset ''VERSION'' = Some 0x2"
  "reg_offset ''MODE'' = Some 0x4"
  "reg_offset ''COMMAND'' = Some 0x5"
  "reg_offset ''STATUS'' = Some 0x6"
  "reg_offset ''SETTINGS'' = Some 0x7"
  "reg_offset ''INT_STAT'' = Some 0x8"
  "reg_offset ''INT_ENA_SET'' = Some 0xc"
  "reg_offset ''INT_ENA_CLR'' = Some 0x10"
  "reg_offset ''INT_MASK_SET'' = Some 0x14"
  "reg_offset ''INT_MASK_CLR'' = Some 0x18"
  "reg_offset ''BTR'' = Some 0x1c"
  "reg_offset ''BTR_FD'' = Some 0x20"
  "reg_offset ''EWL'' = Some 0x24"
  "reg_offset ''ERP'' = Some 0x25"
  "reg_offset ''FAULT_STATE'' = Some 0x26"
  "reg_offset ''RXC'' = Some 0x28"
  "reg_offset ''TXC'' = Some 0x2a"
  "reg_offset ''ERR_NORM'' = Some 0x2c"
  "reg_offset ''ERR_FD'' = Some 0x2e"
  "reg_offset ''CTR_PRES'' = Some 0x30"
  "reg_offset ''FILTER_A_MASK'' = Some 0x34"
  "reg_offset ''FILTER_A_VAL'' = Some 0x38"
  "reg_offset ''FILTER_B_MASK'' = Some 0x3c"
  "reg_offset ''FILTER_B_VAL'' = Some 0x40"
  "reg_offset ''FILTER_C_MASK'' = Some 0x44"
  "reg_offset ''FILTER_C_VAL'' = Some 0x48"
  "reg_offset ''FILTER_RAN_LOW'' = Some 0x4c"
  "reg_offset ''FILTER_RAN_HIGH'' = Some 0x50"
  "reg_offset ''FILTER_CONTROL'' = Some 0x54"
  "reg_offset ''FILTER_STATUS'' = Some 0x56"
  "reg_offset ''RX_MEM_INFO'' = Some 0x58"
  "reg_offset ''RX_POINTERS'' = Some 0x5c"
  "reg_offset ''RX_STATUS'' = Some 0x60"
  "reg_offset ''RX_SETTINGS'' = Some 0x62"
  "reg_offset ''RX_DATA'' = Some 0x64"
  "reg_offset ''TX_STATUS'' = Some 0x68"
  "reg_offset ''TX_COMMAND'' = Some 0x6c"
  "reg_offset ''TX_PRIORITY'' = Some 0x70"
  "reg_offset ''ERR_CAPT'' = Some 0x74"
  "reg_offset ''ALC'' = Some 0x75"
  "reg_offset ''TRV_DELAY'' = Some 0x78"
  "reg_offset ''SSP_CFG'' = Some 0x7a"
  "reg_offset ''RX_COUNTER'' = Some 0x7c"
  "reg_offset ''TX_COUNTER'' = Some 0x80"
  "reg_offset ''DEBUG_REGISTER'' = Some 0x84"
  "reg_offset ''YOLO_REG'' = Some 0x88"
  "reg_offset ''TIMESTAMP_LOW'' = Some 0x8c"
  "reg_offset ''TIMESTAMP_HIGH'' = Some 0x90"
  "reg_offset ''TXTB1_DATA_1'' = Some 0x100"
  "reg_offset ''TXTB1_DATA_2'' = Some 0x104"
  "reg_offset ''TXTB1_DATA_20'' = Some 0x14c"
  "reg_offset ''TXTB2_DATA_1'' = Some 0x200"
  "reg_offset ''TXTB2_DATA_2'' = Some 0x204"
  "reg_offset ''TXTB2_DATA_20'' = Some 0x24c"
  "reg_offset ''TXTB3_DATA_1'' = Some 0x300"
  "reg_offset ''TXTB3_DATA_2'' = Some 0x304"
  "reg_offset ''TXTB3_DATA_20'' = Some 0x34c"
  "reg_offset ''TXTB4_DATA_1'' = Some 0x400"
  "reg_offset ''TXTB4_DATA_2'' = Some 0x404"
  "reg_offset ''TXTB4_DATA_20'' = Some 0x44c"
  "reg_offset ''LOG_TRIG_CONFIG'' = Some 0x500"
  "reg_offset ''LOG_CAPT_CONFIG'' = Some 0x504"
  "reg_offset ''LOG_STATUS'' = Some 0x508"
  "reg_offset ''LOG_POINTERS'' = Some 0x50a"
  "reg_offset ''LOG_COMMAND'' = Some 0x50c"
  "reg_offset ''LOG_CAPT_EVENT_1'' = Some 0x510"
  "reg_offset ''LOG_CAPT_EVENT_2'' = Some 0x514"
  unfolding reg_offset_def ctu_can_fd_can_registers_def c_enum.sel append.simps
  by (rule lookup_here | (rule lookup_next, simp))+

lemma union_bases:
  "map union_base register_unions = map Some
     [0x0, 0x4, 0x8, 0xc, 0x10, 0x14, 0x18, 0x1c, 0x20, 0x24, 0x28, 0x2c, 0x30, 0x34, 0x38, 0x3c,
      0x40, 0x44, 0x48, 0x4c, 0x50, 0x54, 0x58, 0x5c, 0x60, 0x64, 0x68, 0x6c, 0x70, 0x74, 0x78,
      0x7c, 0x80, 0x84, 0x88, 0x8c, 0x90, 0x500, 0x504, 0x508, 0x50c, 0x510, 0x514]"
  apply (simp add: register_unions_def union_base_def union_regs_def)
  apply (simp add: union_defs reg_offsets)
  done

lemma packed_checked:
  "list_all (\<lambda>u. list_all (\<lambda>r. case (union_base u, reg_offset r) of
                                      (Some b, Some off) \<Rightarrow> b \<le> off \<and> off < b + 4
                                    | _ \<Rightarrow> False) (union_regs u))
     register_unions"
  apply (simp add: register_unions_def union_base_def union_regs_def)
  apply (simp add: union_defs reg_offsets)
  done

lemma names_distinct: "distinct (map fst (e_consts ctu_can_fd_can_registers))"
  by (simp add: ctu_can_fd_can_registers_def)

lemma offsets_distinct: "distinct (map snd (e_consts ctu_can_fd_can_registers))"
  by (simp add: ctu_can_fd_can_registers_def)

lemma unions_checked:
  "list_all (\<lambda>u. sum_list (map snd (struct_fields LITTLE_ENDIAN_BITFIELD u)) = 32
               \<and> struct_fields BIG_ENDIAN_BITFIELD u = rev (struct_fields LITTLE_ENDIAN_BITFIELD u))
     register_unions"
  by code_simp

lemma reserved_checked:
  "list_all (\<lambda>u. list_all (\<lambda>(n, lsb, w). is_reserved n \<longrightarrow> n = reserved_name lsb w)
                    (union_layout LITTLE_ENDIAN_BITFIELD u))
     register_unions"
  by code_simp

lemma enum_widths_checked:
  "map enum_field_widths field_enums
     = [[16], [1], [1], [1], [1], [1], [1], [1], [1], [1], [1], [1], [1], [4], [5], [3], [3], [2],
        [5], [5], [3]]"
  apply (simp add: field_enums_def enum_defs enum_field_widths_def register_unions_def)
  apply (simp add: union_enum_widths_def union_defs section_enum_widths_def lower_chars)
  done

lemma enum_consts_checked:
  "list_all (\<lambda>(e, w). list_all (\<lambda>(n, c). c < 2 ^ w) (e_consts e))
     (zip field_enums
        [16, 1, 1, 1, 1, 1, 1, 1, 1, 1, 1, 1, 1, 4, 5, 3, 3, 2, 5, 5, 3])"
  by (simp add: field_enums_def enum_defs)

section \<open>Layouts and field access in general\<close>

lemma place_up_snoc:
  "place_up lsb (fs @ [(n, w)]) = place_up lsb fs @ [(n, lsb + sum_list (map snd fs), w)]"
  by (induction fs arbitrary: lsb) (auto simp: add.assoc)

lemma place_down_snoc:
  "place_down msb (fs @ [(n, w)])
     = place_down msb fs @ [(n, msb - sum_list (map snd fs) - w, w)]"
  by (induction fs arbitrary: msb) auto

lemma place_down_rev:
  "sum_list (map snd fs) \<le> msb \<Longrightarrow>
   place_down msb (rev fs) = rev (place_up (msb - sum_list (map snd fs)) fs)"
proof (induction fs arbitrary: msb)
  case Nil
  then show ?case by simp
next
  case (Cons f fs)
  obtain n w where f: "f = (n, w)" by (cases f)
  from Cons.prems f have le: "sum_list (map snd fs) \<le> msb" and le': "w + sum_list (map snd fs) \<le> msb"
    by simp_all
  have "place_down msb (rev (f # fs)) = place_down msb (rev fs) @ [(n, msb - sum_list (map snd fs) - w, w)]"
    by (simp add: f place_down_snoc rev_map [symmetric])
  also have "place_down msb (rev fs) = rev (place_up (msb - sum_list (map snd fs)) fs)"
    using le by (rule Cons.IH)
  finally show ?case using le' by (simp add: f)
qed

lemma covers_place_up:
  "covers (place_up lsb fs) i \<longleftrightarrow> lsb \<le> i \<and> i < lsb + sum_list (map snd fs)"
  by (induction fs arbitrary: lsb) auto

lemma covers_place_down:
  "sum_list (map snd fs) \<le> msb \<Longrightarrow>
   covers (place_down msb fs) i \<longleftrightarrow> msb - sum_list (map snd fs) \<le> i \<and> i < msb"
  by (induction fs arbitrary: msb) auto

lemma covers_layout:
  "sum_list (map snd fs) = 32 \<Longrightarrow> covers (layout ord fs) i \<longleftrightarrow> i < 32"
  by (cases ord) (simp_all add: covers_place_up covers_place_down)

lemma bit_get_field:
  "bit (get_field v lsb w) k \<longleftrightarrow> k < w \<and> bit v (lsb + k)"
  by (simp add: get_field_def bit_simps)

lemma bit_set_field:
  "bit (set_field v lsb w x) i \<longleftrightarrow>
     (if lsb \<le> i \<and> i < lsb + w then i < 32 \<and> bit x (i - lsb) else bit v i)"
  by (auto simp: set_field_def bit_simps dest: bit_imp_le_length)

lemma bit32: "bit v i \<Longrightarrow> i < 32" for v :: "32 word"
  using bit_imp_le_length [of v i] by simp

lemma bit_push_get:
  "bit (push_bit lsb (get_field v lsb w)) i \<longleftrightarrow> lsb \<le> i \<and> i < lsb + w \<and> bit v i"
proof (cases "lsb \<le> i")
  case True
  then have "lsb + (i - lsb) = i" "i - lsb < w \<longleftrightarrow> i < lsb + w" by arith+
  with True show ?thesis
    by (auto simp: bit_push_bit_iff bit_get_field dest: bit32)
next
  case False
  then show ?thesis by (simp add: bit_push_bit_iff)
qed

lemma bit_set_get:
  "bit (set_field v0 lsb w (get_field v lsb w)) i \<longleftrightarrow>
     (if lsb \<le> i \<and> i < lsb + w then bit v i else bit v0 i)"
proof (cases "lsb \<le> i \<and> i < lsb + w")
  case True
  then have "lsb + (i - lsb) = i" "i - lsb < w" by arith+
  with True show ?thesis
    by (auto simp: bit_set_field bit_get_field dest: bit32)
next
  case False
  then show ?thesis by (auto simp: bit_set_field)
qed

lemma bit_reassemble_read:
  "bit (reassemble pl (read_fields pl v)) i \<longleftrightarrow> covers pl i \<and> bit v i"
proof (induction pl)
  case Nil
  show ?case by (simp add: read_fields_def)
next
  case (Cons p pl)
  obtain n lsb w where p: "p = (n, lsb, w)" by (cases p)
  have "bit (reassemble (p # pl) (read_fields (p # pl) v)) i
        \<longleftrightarrow> bit (push_bit lsb (get_field v lsb w)) i \<or> bit (reassemble pl (read_fields pl v)) i"
    by (simp add: p read_fields_def bit_or_iff)
  then show ?case using Cons.IH by (auto simp: p bit_push_get)
qed

lemma bit_write_read:
  "bit (write_fields pl (read_fields pl v) v0) i \<longleftrightarrow> (if covers pl i then bit v i else bit v0 i)"
proof (induction pl arbitrary: v0)
  case Nil
  show ?case by (simp add: read_fields_def)
next
  case (Cons p pl)
  obtain n lsb w where p: "p = (n, lsb, w)" by (cases p)
  have "write_fields (p # pl) (read_fields (p # pl) v) v0
        = write_fields pl (read_fields pl v) (set_field v0 lsb w (get_field v lsb w))"
    by (simp add: p read_fields_def)
  then show ?case by (simp add: Cons.IH bit_set_get p)
qed

lemma bit_write_outside:
  "\<not> covers pl i \<Longrightarrow> bit (write_fields pl xs v) i \<longleftrightarrow> bit v i"
  by (induction pl xs v rule: write_fields.induct) (auto simp: bit_set_field)

lemma get_set_same:
  assumes "lsb + w \<le> 32"
  shows "get_field (set_field v lsb w x) lsb w = take_bit w x"
proof (rule bit_word_eqI)
  fix k assume "k < LENGTH(32)"
  have "k < w \<Longrightarrow> lsb + k < 32" using assms by arith
  then show "bit (get_field (set_field v lsb w x) lsb w) k \<longleftrightarrow> bit (take_bit w x) k"
    by (auto simp: bit_get_field bit_set_field bit_take_bit_iff)
qed

lemma get_write_outside:
  assumes "\<And>i. lsb \<le> i \<Longrightarrow> i < lsb + w \<Longrightarrow> \<not> covers pl i"
  shows "get_field (write_fields pl xs v) lsb w = get_field v lsb w"
proof (rule bit_word_eqI)
  fix k assume "k < LENGTH(32)"
  show "bit (get_field (write_fields pl xs v) lsb w) k \<longleftrightarrow> bit (get_field v lsb w) k"
    using assms [of "lsb + k"] by (auto simp: bit_get_field bit_write_outside)
qed

lemma read_write_up:
  "lsb + sum_list (map snd fs) \<le> 32 \<Longrightarrow> length xs = length fs \<Longrightarrow>
   read_fields (place_up lsb fs) (write_fields (place_up lsb fs) xs v0)
     = truncated (place_up lsb fs) xs"
proof (induction fs arbitrary: lsb xs v0)
  case Nil
  then show ?case by (simp add: read_fields_def)
next
  case (Cons f fs)
  obtain n w where f: "f = (n, w)" by (cases f)
  from Cons.prems obtain x xs' where xs: "xs = x # xs'" "length xs' = length fs"
    by (cases xs) auto
  let ?v = "set_field v0 lsb w x"
  from Cons.prems f have fit: "lsb + w \<le> 32" "(lsb + w) + sum_list (map snd fs) \<le> 32"
    by simp_all
  have "get_field (write_fields (place_up (lsb + w) fs) xs' ?v) lsb w = get_field ?v lsb w"
    by (rule get_write_outside) (simp add: covers_place_up)
  then have hd: "get_field (write_fields (place_up (lsb + w) fs) xs' ?v) lsb w = take_bit w x"
    using fit(1) by (simp add: get_set_same)
  have tl: "read_fields (place_up (lsb + w) fs) (write_fields (place_up (lsb + w) fs) xs' ?v)
        = truncated (place_up (lsb + w) fs) xs'"
    using fit(2) xs(2) by (rule Cons.IH)
  show ?case using hd tl by (simp add: f xs read_fields_def)
qed

lemma read_write_down:
  "sum_list (map snd fs) \<le> msb \<Longrightarrow> msb \<le> 32 \<Longrightarrow> length xs = length fs \<Longrightarrow>
   read_fields (place_down msb fs) (write_fields (place_down msb fs) xs v0)
     = truncated (place_down msb fs) xs"
proof (induction fs arbitrary: msb xs v0)
  case Nil
  then show ?case by (simp add: read_fields_def)
next
  case (Cons f fs)
  obtain n w where f: "f = (n, w)" by (cases f)
  from Cons.prems obtain x xs' where xs: "xs = x # xs'" "length xs' = length fs"
    by (cases xs) auto
  let ?v = "set_field v0 (msb - w) w x"
  from Cons.prems f have fit: "(msb - w) + w \<le> 32" "sum_list (map snd fs) \<le> msb - w" "msb - w \<le> 32"
    by simp_all
  have "get_field (write_fields (place_down (msb - w) fs) xs' ?v) (msb - w) w = get_field ?v (msb - w) w"
    by (rule get_write_outside) (use fit(2) in \<open>simp add: covers_place_down\<close>)
  then have hd: "get_field (write_fields (place_down (msb - w) fs) xs' ?v) (msb - w) w = take_bit w x"
    using fit(1) by (simp add: get_set_same)
  have tl: "read_fields (place_down (msb - w) fs) (write_fields (place_down (msb - w) fs) xs' ?v)
        = truncated (place_down (msb - w) fs) xs'"
    using fit(2,3) xs(2) by (rule Cons.IH)
  show ?case using hd tl by (simp add: f xs read_fields_def)
qed

lemma length_place_up: "length (place_up lsb fs) = length fs"
  by (induction fs arbitrary: lsb) auto

lemma length_place_down: "length (place_down msb fs) = length fs"
  by (induction fs arbitrary: msb) auto

section \<open>The unions of the file\<close>

lemma union_checked:
  assumes "u \<in> set register_unions"
  shows "sum_list (map snd (struct_fields LITTLE_ENDIAN_BITFIELD u)) = 32"
    and "struct_fields BIG_ENDIAN_BITFIELD u = rev (struct_fields LITTLE_ENDIAN_BITFIELD u)"
  using assms unions_checked by (auto simp: list_all_iff)

lemma union_widths:
  assumes "u \<in> set register_unions"
  shows "sum_list (map snd (struct_fields ord u)) = 32"
proof (cases ord)
  case LITTLE_ENDIAN_BITFIELD
  then show ?thesis using assms by (simp add: union_checked)
next
  case BIG_ENDIAN_BITFIELD
  have "sum_list (map snd (rev (struct_fields LITTLE_ENDIAN_BITFIELD u))) = 32"
    using assms by (simp add: rev_map [symmetric] union_checked(1))
  then show ?thesis using assms BIG_ENDIAN_BITFIELD by (simp add: union_checked(2))
qed

lemma union_layout_rev:
  assumes "u \<in> set register_unions"
  shows "union_layout BIG_ENDIAN_BITFIELD u = rev (union_layout LITTLE_ENDIAN_BITFIELD u)"
proof -
  let ?fs = "struct_fields LITTLE_ENDIAN_BITFIELD u"
  have "place_down 32 (rev ?fs) = rev (place_up (32 - sum_list (map snd ?fs)) ?fs)"
    by (rule place_down_rev) (simp add: union_checked(1) [OF assms])
  then show ?thesis
    by (simp add: union_layout_def union_checked [OF assms])
qed

lemma union_layout_covers:
  assumes "u \<in> set register_unions"
  shows "covers (union_layout ord u) i \<longleftrightarrow> i < 32"
  unfolding union_layout_def by (rule covers_layout) (rule union_widths [OF assms])

lemma truncated_fits:
  "list_all2 (\<lambda>(n, lsb, w) x. unat x < 2 ^ w) pl xs \<Longrightarrow> truncated pl xs = xs"
proof (induction pl xs rule: list_all2_induct)
  case Nil
  show ?case by simp
next
  case (Cons p pl x xs)
  obtain n lsb w where p: "p = (n, lsb, w)" by (cases p)
  from Cons.hyps(1) p have "unat x < 2 ^ w" by simp
  then have "unat (take_bit w x) = unat x"
    by (simp add: unsigned_take_bit_eq take_bit_nat_eq_self)
  then have "take_bit w x = x"
    by (simp add: word_unat_eq_iff)
  then show ?case using Cons.IH by (simp add: p)
qed

lemma union_base_aligned:
  assumes "u \<in> set register_unions"
  shows "\<exists>b. union_base u = Some b \<and> 4 dvd b"
proof -
  from assms have "union_base u \<in> set (map union_base register_unions)"
    by simp
  then show ?thesis
    unfolding union_bases by auto
qed

lemma union_base_inj:
  assumes "u \<in> set register_unions" "u' \<in> set register_unions" "u \<noteq> u'"
  shows "union_base u \<noteq> union_base u'"
proof -
  have "distinct (map union_base register_unions)"
    unfolding union_bases by simp
  then have "inj_on union_base (set register_unions)"
    by (simp add: distinct_map)
  with assms show ?thesis
    by (auto dest: inj_onD)
qed

lemma union_regs_packed:
  assumes "u \<in> set register_unions" "r \<in> set (union_regs u)" "union_base u = Some b"
  shows "\<exists>off. reg_offset r = Some off \<and> off \<in> word_span b"
proof -
  from packed_checked assms(1,2)
  have "case (union_base u, reg_offset r) of
          (Some b, Some off) \<Rightarrow> b \<le> off \<and> off < b + 4 | _ \<Rightarrow> False"
    by (auto simp: list_all_iff)
  with assms(3) show ?thesis
    by (auto simp: word_span_def split: option.splits)
qed

lemma word_span_disjoint:
  assumes "4 dvd b" "4 dvd b'" "b \<noteq> b'"
  shows "word_span b \<inter> word_span b' = {}"
proof -
  from assms obtain k k' where "b = 4 * k" "b' = 4 * k'" "k \<noteq> k'"
    by (auto simp: dvd_def)
  then show ?thesis
    by (auto simp: word_span_def)
qed

lemma enum_widths_zipped:
  "list_all (\<lambda>(e, w). enum_field_widths e = [w])
     (zip field_enums
        [16, 1, 1, 1, 1, 1, 1, 1, 1, 1, 1, 1, 1, 4, 5, 3, 3, 2, 5, 5, 3])"
proof -
  have "list_all (\<lambda>(e, ws). enum_field_widths e = ws)
          (zip field_enums (map enum_field_widths field_enums))"
    by (simp add: list_all_iff zip_map2 zip_same_conv_map)
  then show ?thesis
    unfolding enum_widths_checked by (simp add: field_enums_def)
qed

lemma enum_fits:
  assumes "e \<in> set field_enums"
  shows "\<exists>w. enum_field_widths e = [w] \<and> (\<forall>(n, c)\<in>set (e_consts e). c < 2 ^ w)"
proof -
  let ?ws = "[16, 1, 1, 1, 1, 1, 1, 1, 1, 1, 1, 1, 1, 4, 5, 3, 3, 2, 5, 5, 3] :: nat list"
  have "length field_enums = length ?ws"
    by (simp add: field_enums_def)
  with assms obtain w where mem: "(e, w) \<in> set (zip field_enums ?ws)"
    by (meson in_set_impl_in_set_zip1)
  have "\<forall>(e, w)\<in>set (zip field_enums ?ws). enum_field_widths e = [w]"
    using enum_widths_zipped unfolding list_all_iff .
  with mem have width: "enum_field_widths e = [w]"
    by blast
  have "\<forall>(e, w)\<in>set (zip field_enums ?ws). \<forall>(n, c)\<in>set (e_consts e). c < 2 ^ w"
    using enum_consts_checked unfolding list_all_iff .
  with mem have "\<forall>(n, c)\<in>set (e_consts e). c < 2 ^ w"
    by blast
  with width show ?thesis
    by blast
qed

section \<open>Properties of the register map\<close>

text \<open>
  C1. For every register union that has both a little-endian and a big-endian bit-field
  variant, the big-endian field list is exactly the reverse of the little-endian field list
  (same names, same widths, mirrored order), so that both variants give every named and
  reserved field the same bit position in the 32-bit word.
\<close>

theorem bitfield_orders_mirror:
  "\<forall>u\<in>set register_unions. has_ifdef (u_body u) \<longrightarrow>
       struct_fields BIG_ENDIAN_BITFIELD u = rev (struct_fields LITTLE_ENDIAN_BITFIELD u)
     \<and> union_layout BIG_ENDIAN_BITFIELD u = rev (union_layout LITTLE_ENDIAN_BITFIELD u)
     \<and> set (union_layout BIG_ENDIAN_BITFIELD u) = set (union_layout LITTLE_ENDIAN_BITFIELD u)"
proof (intro ballI impI conjI)
  fix u assume u: "u \<in> set register_unions"
  show "struct_fields BIG_ENDIAN_BITFIELD u = rev (struct_fields LITTLE_ENDIAN_BITFIELD u)"
    using u by (rule union_checked(2))
  show rev: "union_layout BIG_ENDIAN_BITFIELD u = rev (union_layout LITTLE_ENDIAN_BITFIELD u)"
    using u by (rule union_layout_rev)
  show "set (union_layout BIG_ENDIAN_BITFIELD u) = set (union_layout LITTLE_ENDIAN_BITFIELD u)"
    by (simp add: rev)
qed

theorem bitfield_orders_mirror_witness:
  "ctu_can_fd_log_trig_config \<in> set register_unions
   \<and> has_ifdef (u_body ctu_can_fd_log_trig_config)
   \<and> struct_fields BIG_ENDIAN_BITFIELD ctu_can_fd_log_trig_config
       = rev (struct_fields LITTLE_ENDIAN_BITFIELD ctu_can_fd_log_trig_config)
   \<and> union_layout BIG_ENDIAN_BITFIELD ctu_can_fd_log_trig_config
       = rev (union_layout LITTLE_ENDIAN_BITFIELD ctu_can_fd_log_trig_config)
   \<and> set (union_layout BIG_ENDIAN_BITFIELD ctu_can_fd_log_trig_config)
       = set (union_layout LITTLE_ENDIAN_BITFIELD ctu_can_fd_log_trig_config)
   \<and> map_of (union_layout BIG_ENDIAN_BITFIELD ctu_can_fd_log_trig_config) ''t_res'' = Some (17, 1)
   \<and> map_of (union_layout LITTLE_ENDIAN_BITFIELD ctu_can_fd_log_trig_config) ''t_res'' = Some (17, 1)"
proof -
  have mem: "ctu_can_fd_log_trig_config \<in> set register_unions"
    by (simp add: register_unions_def)
  have ifdef: "has_ifdef (u_body ctu_can_fd_log_trig_config)"
    by (simp add: ctu_can_fd_log_trig_config_def)
  have "map_of (union_layout BIG_ENDIAN_BITFIELD ctu_can_fd_log_trig_config) ''t_res'' = Some (17, 1)"
    "map_of (union_layout LITTLE_ENDIAN_BITFIELD ctu_can_fd_log_trig_config) ''t_res'' = Some (17, 1)"
    by (simp_all add: union_layout_def struct_fields_def ctu_can_fd_log_trig_config_def)
  with mem ifdef bitfield_orders_mirror show ?thesis
    by blast
qed

text \<open>
  C2. For every register union, the raw member \<^verbatim>\<open>u32\<close> and the bit-field view \<^verbatim>\<open>s\<close>
  are the same 32 bits: reading all fields of a word \<open>v\<close> and putting them back at their
  positions (by shifting and or-ing, or by assigning them to the fields of any other
  word) gives \<open>v\<close> again, and conversely reading the fields after assigning values to all
  of them gives those values back (each reduced to the width of its field, so unchanged
  when it fits). This holds under either bit-field order.
\<close>

theorem raw_word_and_fields_alias:
  assumes "u \<in> set register_unions"
  shows "reassemble (union_layout ord u) (read_fields (union_layout ord u) v) = v
       \<and> write_fields (union_layout ord u) (read_fields (union_layout ord u) v) v0 = v
       \<and> (length xs = length (union_layout ord u) \<longrightarrow>
            read_fields (union_layout ord u) (write_fields (union_layout ord u) xs v0)
              = truncated (union_layout ord u) xs)
       \<and> (list_all2 (\<lambda>(n, lsb, w) x. unat x < 2 ^ w) (union_layout ord u) xs \<longrightarrow>
            read_fields (union_layout ord u) (write_fields (union_layout ord u) xs v0) = xs)"
proof -
  let ?pl = "union_layout ord u"
  have cov: "covers ?pl i \<longleftrightarrow> i < 32" for i
    using assms by (rule union_layout_covers)
  have a: "reassemble ?pl (read_fields ?pl v) = v"
    by (rule bit_word_eqI) (simp add: bit_reassemble_read cov)
  have b: "write_fields ?pl (read_fields ?pl v) v0 = v"
    by (rule bit_word_eqI) (simp add: bit_write_read cov)
  have sum: "sum_list (map snd (struct_fields ord u)) = 32"
    using assms by (rule union_widths)
  have len: "length ?pl = length (struct_fields ord u)"
    by (cases ord) (simp_all add: union_layout_def length_place_up length_place_down)
  have c: "read_fields ?pl (write_fields ?pl xs v0) = truncated ?pl xs"
    if "length xs = length ?pl"
  proof (cases ord)
    case LITTLE_ENDIAN_BITFIELD
    with sum that len show ?thesis
      by (simp add: union_layout_def read_write_up)
  next
    case BIG_ENDIAN_BITFIELD
    with sum that len show ?thesis
      by (simp add: union_layout_def read_write_down)
  qed
  have d: "read_fields ?pl (write_fields ?pl xs v0) = xs"
    if fits: "list_all2 (\<lambda>(n, lsb, w) x. unat x < 2 ^ w) ?pl xs"
  proof -
    from fits have "length xs = length ?pl"
      by (simp add: list_all2_lengthD)
    then have "read_fields ?pl (write_fields ?pl xs v0) = truncated ?pl xs"
      by (rule c)
    with fits show ?thesis
      by (simp add: truncated_fits)
  qed
  from a b c d show ?thesis
    by blast
qed

theorem raw_word_and_fields_alias_witness:
  "ctu_can_fd_btr \<in> set register_unions
   \<and> read_fields (union_layout BIG_ENDIAN_BITFIELD ctu_can_fd_btr) 0xdeadbeef = [27, 213, 45, 61, 111]
   \<and> reassemble (union_layout BIG_ENDIAN_BITFIELD ctu_can_fd_btr) [27, 213, 45, 61, 111] = 0xdeadbeef
   \<and> write_fields (union_layout BIG_ENDIAN_BITFIELD ctu_can_fd_btr) [27, 213, 45, 61, 111] 0x12345678
       = 0xdeadbeef
   \<and> length [27, 213, 45, 61, 111 :: 32 word] = length (union_layout BIG_ENDIAN_BITFIELD ctu_can_fd_btr)
   \<and> list_all2 (\<lambda>(n, lsb, w) x. unat x < 2 ^ w) (union_layout BIG_ENDIAN_BITFIELD ctu_can_fd_btr)
        [27, 213, 45, 61, 111 :: 32 word]
   \<and> read_fields (union_layout BIG_ENDIAN_BITFIELD ctu_can_fd_btr)
        (write_fields (union_layout BIG_ENDIAN_BITFIELD ctu_can_fd_btr) [27, 213, 45, 61, 111] 0x12345678)
       = [27, 213, 45, 61, 111]"
proof -
  let ?pl = "union_layout BIG_ENDIAN_BITFIELD ctu_can_fd_btr"
  let ?xs = "[27, 213, 45, 61, 111] :: 32 word list"
  have mem: "ctu_can_fd_btr \<in> set register_unions"
    by (simp add: register_unions_def)
  have pl: "?pl = [(''sjw'', 27, 5), (''brp'', 19, 8), (''ph2'', 13, 6), (''ph1'', 7, 6), (''prop'', 0, 7)]"
    by (simp add: union_layout_def struct_fields_def ctu_can_fd_btr_def)
  have rd: "read_fields ?pl 0xdeadbeef = ?xs"
    unfolding pl by (simp add: read_fields_def get_field_def)
  have len: "length ?xs = length ?pl"
    unfolding pl by simp
  have fits: "list_all2 (\<lambda>(n, lsb, w) x. unat x < 2 ^ w) ?pl ?xs"
    unfolding pl by simp
  from raw_word_and_fields_alias [OF mem, of BIG_ENDIAN_BITFIELD "0xdeadbeef" "0x12345678" ?xs]
  show ?thesis
    using mem rd len fits by simp
qed

text \<open>
  C3, as the code has it. The enumeration \<^verbatim>\<open>ctu_can_fd_can_registers\<close> has 68 enumerators
  (not 64). Their names are pairwise distinct and so are their values, so the mapping from
  register name to byte offset is injective. Every union stands for one aligned 32-bit
  word: the word spans of distinct unions do not overlap, and the registers packed into one
  union (those its comments name, such as MODE, COMMAND, STATUS and SETTINGS at offsets
  0x4 to 0x7) all lie inside the span of that union.
\<close>

theorem register_offsets_injective:
  "length (e_consts ctu_can_fd_can_registers) = 68
   \<and> distinct (map fst (e_consts ctu_can_fd_can_registers))
   \<and> distinct (map snd (e_consts ctu_can_fd_can_registers))
   \<and> (\<forall>u\<in>set register_unions. \<exists>b. union_base u = Some b \<and> 4 dvd b
         \<and> (\<forall>r\<in>set (union_regs u). \<exists>off. reg_offset r = Some off \<and> off \<in> word_span b))
   \<and> (\<forall>u\<in>set register_unions. \<forall>u'\<in>set register_unions. u \<noteq> u' \<longrightarrow>
         (\<exists>b b'. union_base u = Some b \<and> union_base u' = Some b'
                  \<and> word_span b \<inter> word_span b' = {}))"
proof (intro conjI ballI impI)
  show "length (e_consts ctu_can_fd_can_registers) = 68"
    by (simp add: ctu_can_fd_can_registers_def)
  show "distinct (map fst (e_consts ctu_can_fd_can_registers))"
    by (rule names_distinct)
  show "distinct (map snd (e_consts ctu_can_fd_can_registers))"
    by (rule offsets_distinct)
next
  fix u assume u: "u \<in> set register_unions"
  then obtain b where b: "union_base u = Some b" "4 dvd b"
    using union_base_aligned by blast
  then show "\<exists>b. union_base u = Some b \<and> 4 dvd b
         \<and> (\<forall>r\<in>set (union_regs u). \<exists>off. reg_offset r = Some off \<and> off \<in> word_span b)"
    using union_regs_packed [OF u] by blast
next
  fix u u' assume u: "u \<in> set register_unions" and u': "u' \<in> set register_unions"
    and ne: "u \<noteq> u'"
  from u obtain b where b: "union_base u = Some b" "4 dvd b"
    using union_base_aligned by blast
  from u' obtain b' where b': "union_base u' = Some b'" "4 dvd b'"
    using union_base_aligned by blast
  from union_base_inj [OF u u' ne] b b' have "b \<noteq> b'"
    by auto
  with b b' have "word_span b \<inter> word_span b' = {}"
    by (simp add: word_span_disjoint)
  with b b' show "\<exists>b b'. union_base u = Some b \<and> union_base u' = Some b'
                  \<and> word_span b \<inter> word_span b' = {}"
    by blast
qed

theorem register_offsets_injective_witness:
  "ctu_can_fd_mode_command_status_settings \<in> set register_unions
   \<and> ctu_can_fd_int_stat \<in> set register_unions
   \<and> ctu_can_fd_mode_command_status_settings \<noteq> ctu_can_fd_int_stat
   \<and> union_base ctu_can_fd_mode_command_status_settings = Some 0x4
   \<and> union_base ctu_can_fd_int_stat = Some 0x8
   \<and> word_span 0x4 \<inter> word_span 0x8 = {}
   \<and> union_regs ctu_can_fd_mode_command_status_settings = [''MODE'', ''COMMAND'', ''STATUS'', ''SETTINGS'']
   \<and> map reg_offset [''MODE'', ''COMMAND'', ''STATUS'', ''SETTINGS''] = [Some 0x4, Some 0x5, Some 0x6, Some 0x7]
   \<and> {0x4, 0x5, 0x6, 0x7} \<subseteq> word_span 0x4"
proof -
  let ?u = ctu_can_fd_mode_command_status_settings and ?u' = ctu_can_fd_int_stat
  have mem: "?u \<in> set register_unions" "?u' \<in> set register_unions"
    by (simp_all add: register_unions_def)
  have ne: "?u \<noteq> ?u'"
    by (simp add: ctu_can_fd_mode_command_status_settings_def ctu_can_fd_int_stat_def)
  have regs: "union_regs ?u = [''MODE'', ''COMMAND'', ''STATUS'', ''SETTINGS'']"
    by (simp add: union_regs_def ctu_can_fd_mode_command_status_settings_def)
  have offs: "map reg_offset [''MODE'', ''COMMAND'', ''STATUS'', ''SETTINGS'']
                = [Some 0x4, Some 0x5, Some 0x6, Some 0x7]"
    by (simp add: reg_offsets)
  have base: "union_base ?u = Some 0x4" "union_base ?u' = Some 0x8"
    by (simp_all add: union_base_def union_regs_def reg_offsets
          ctu_can_fd_mode_command_status_settings_def ctu_can_fd_int_stat_def)
  from register_offsets_injective mem ne
  obtain b b' where "union_base ?u = Some b" "union_base ?u' = Some b'"
      "word_span b \<inter> word_span b' = {}"
    by blast
  with base have disj: "word_span 0x4 \<inter> word_span 0x8 = {}"
    by simp
  from register_offsets_injective mem(1)
  obtain b where "union_base ?u = Some b"
      "\<forall>r\<in>set (union_regs ?u). \<exists>off. reg_offset r = Some off \<and> off \<in> word_span b"
    by blast
  with base(1) regs offs have "{0x4, 0x5, 0x6, 0x7} \<subseteq> word_span 0x4"
    by auto
  with mem ne base disj regs offs show ?thesis
    by blast
qed

theorem register_count_counterexample:
  "length (e_consts ctu_can_fd_can_registers) = 68
   \<and> length (e_consts ctu_can_fd_can_registers) \<noteq> 64"
  by (simp add: ctu_can_fd_can_registers_def)

text \<open>
  C4. Every enumeration of field values names values of exactly one bit-field (the field
  its tag \<^verbatim>\<open>ctu_can_fd_<register>_<field>\<close> spells), and every one of its constants is less
  than \<open>2 ^ w\<close> for the width \<open>w\<close> of that field. In particular the values of
  \<^verbatim>\<open>ctu_can_fd_tx_status_tx1s\<close> fit the 4-bit field \<^verbatim>\<open>tx1s\<close>, those of
  \<^verbatim>\<open>ctu_can_fd_err_capt_err_pos\<close> the 5-bit field \<^verbatim>\<open>err_pos\<close>, those of
  \<^verbatim>\<open>ctu_can_fd_err_capt_err_type\<close> the 3-bit field \<^verbatim>\<open>err_type\<close>, and
  \<^verbatim>\<open>CTU_CAN_FD_ID = 0xcafd\<close> the 16-bit field \<^verbatim>\<open>device_id\<close>.
\<close>

theorem enum_constants_fit:
  "(\<forall>e\<in>set field_enums.
      \<exists>w. enum_field_widths e = [w] \<and> (\<forall>(n, c)\<in>set (e_consts e). c < 2 ^ w))
   \<and> enum_field_widths ctu_can_fd_tx_status_tx1s = [4]
   \<and> field_width ctu_can_fd_tx_status ''tx1s'' = Some 4
   \<and> enum_field_widths ctu_can_fd_err_capt_err_pos = [5]
   \<and> field_width ctu_can_fd_err_capt_alc ''err_pos'' = Some 5
   \<and> enum_field_widths ctu_can_fd_err_capt_err_type = [3]
   \<and> field_width ctu_can_fd_err_capt_alc ''err_type'' = Some 3
   \<and> enum_field_widths ctu_can_fd_device_id_device_id = [16]
   \<and> field_width ctu_can_fd_device_id_version ''device_id'' = Some 16
   \<and> e_consts ctu_can_fd_device_id_device_id = [(''CTU_CAN_FD_ID'', 0xcafd)]"
proof -
  have all: "\<forall>e\<in>set field_enums.
      \<exists>w. enum_field_widths e = [w] \<and> (\<forall>(n, c)\<in>set (e_consts e). c < 2 ^ w)"
    using enum_fits by blast
  have widths: "enum_field_widths ctu_can_fd_tx_status_tx1s = [4]"
    "enum_field_widths ctu_can_fd_err_capt_err_pos = [5]"
    "enum_field_widths ctu_can_fd_err_capt_err_type = [3]"
    "enum_field_widths ctu_can_fd_device_id_device_id = [16]"
    using enum_widths_checked by (simp_all add: field_enums_def)
  have fields: "field_width ctu_can_fd_tx_status ''tx1s'' = Some 4"
    "field_width ctu_can_fd_err_capt_alc ''err_pos'' = Some 5"
    "field_width ctu_can_fd_err_capt_alc ''err_type'' = Some 3"
    "field_width ctu_can_fd_device_id_version ''device_id'' = Some 16"
    by (simp_all add: field_width_def struct_fields_def ctu_can_fd_tx_status_def
          ctu_can_fd_err_capt_alc_def ctu_can_fd_device_id_version_def)
  have id: "e_consts ctu_can_fd_device_id_device_id = [(''CTU_CAN_FD_ID'', 0xcafd)]"
    by (simp add: ctu_can_fd_device_id_device_id_def)
  from all widths fields id show ?thesis
    by blast
qed

theorem enum_constants_fit_witness:
  "ctu_can_fd_err_capt_err_pos \<in> set field_enums
   \<and> enum_field_widths ctu_can_fd_err_capt_err_pos = [5]
   \<and> (''ERC_POS_OTHER'', 0x1f) \<in> set (e_consts ctu_can_fd_err_capt_err_pos)
   \<and> (0x1f :: nat) < 2 ^ 5"
proof -
  have mem: "ctu_can_fd_err_capt_err_pos \<in> set field_enums"
    by (simp add: field_enums_def)
  have other: "(''ERC_POS_OTHER'', 0x1f) \<in> set (e_consts ctu_can_fd_err_capt_err_pos)"
    by (simp add: ctu_can_fd_err_capt_err_pos_def)
  from enum_constants_fit mem
  obtain w where w: "enum_field_widths ctu_can_fd_err_capt_err_pos = [w]"
      "\<forall>(n, c)\<in>set (e_consts ctu_can_fd_err_capt_err_pos). c < 2 ^ w"
    by blast
  from enum_constants_fit have "enum_field_widths ctu_can_fd_err_capt_err_pos = [5]"
    by blast
  with w other mem show ?thesis
    by auto
qed

text \<open>
  C5. For every register union, under each of the two bit-field orders, the widths of the
  declared bit-fields (named and reserved) sum to exactly 32: the fields cover bits 0 to
  31 of one word and nothing else, and every reserved field lies at the bits its name
  gives.
\<close>

theorem union_is_one_word:
  "\<forall>u\<in>set register_unions. \<forall>ord.
       sum_list (map snd (struct_fields ord u)) = 32
     \<and> (\<forall>i. covers (union_layout ord u) i \<longleftrightarrow> i < 32)
     \<and> (\<forall>(n, lsb, w)\<in>set (union_layout ord u). is_reserved n \<longrightarrow> n = reserved_name lsb w)"
proof (intro ballI allI)
  fix u ord assume u: "u \<in> set register_unions"
  have sum: "sum_list (map snd (struct_fields ord u)) = 32"
    using u by (rule union_widths)
  have cov: "\<forall>i. covers (union_layout ord u) i \<longleftrightarrow> i < 32"
    using u by (simp add: union_layout_covers)
  have le: "\<forall>(n, lsb, w)\<in>set (union_layout LITTLE_ENDIAN_BITFIELD u).
              is_reserved n \<longrightarrow> n = reserved_name lsb w"
    using reserved_checked u by (simp add: list_all_iff)
  have res: "\<forall>(n, lsb, w)\<in>set (union_layout ord u). is_reserved n \<longrightarrow> n = reserved_name lsb w"
  proof (cases ord)
    case LITTLE_ENDIAN_BITFIELD
    with le show ?thesis by simp
  next
    case BIG_ENDIAN_BITFIELD
    with le show ?thesis by (simp add: union_layout_rev [OF u])
  qed
  from sum cov res
  show "sum_list (map snd (struct_fields ord u)) = 32
     \<and> (\<forall>i. covers (union_layout ord u) i \<longleftrightarrow> i < 32)
     \<and> (\<forall>(n, lsb, w)\<in>set (union_layout ord u). is_reserved n \<longrightarrow> n = reserved_name lsb w)"
    by blast
qed

theorem union_is_one_word_witness:
  "ctu_can_fd_btr_fd \<in> set register_unions
   \<and> map snd (struct_fields LITTLE_ENDIAN_BITFIELD ctu_can_fd_btr_fd) = [6, 1, 5, 1, 5, 1, 8, 5]
   \<and> map snd (struct_fields BIG_ENDIAN_BITFIELD ctu_can_fd_btr_fd) = [5, 8, 1, 5, 1, 5, 1, 6]
   \<and> sum_list (map snd (struct_fields LITTLE_ENDIAN_BITFIELD ctu_can_fd_btr_fd)) = 32
   \<and> sum_list (map snd (struct_fields BIG_ENDIAN_BITFIELD ctu_can_fd_btr_fd)) = 32
   \<and> (''reserved_18'', 18, 1) \<in> set (union_layout BIG_ENDIAN_BITFIELD ctu_can_fd_btr_fd)
   \<and> is_reserved ''reserved_18''
   \<and> ''reserved_18'' = reserved_name 18 1"
proof -
  have mem: "ctu_can_fd_btr_fd \<in> set register_unions"
    by (simp add: register_unions_def)
  have widths: "map snd (struct_fields LITTLE_ENDIAN_BITFIELD ctu_can_fd_btr_fd) = [6, 1, 5, 1, 5, 1, 8, 5]"
    "map snd (struct_fields BIG_ENDIAN_BITFIELD ctu_can_fd_btr_fd) = [5, 8, 1, 5, 1, 5, 1, 6]"
    by (simp_all add: struct_fields_def ctu_can_fd_btr_fd_def)
  have res: "(''reserved_18'', 18, 1) \<in> set (union_layout BIG_ENDIAN_BITFIELD ctu_can_fd_btr_fd)"
    "is_reserved ''reserved_18''"
    by (simp_all add: union_layout_def struct_fields_def ctu_can_fd_btr_fd_def is_reserved_def)
  from union_is_one_word mem
  have "sum_list (map snd (struct_fields LITTLE_ENDIAN_BITFIELD ctu_can_fd_btr_fd)) = 32"
    "sum_list (map snd (struct_fields BIG_ENDIAN_BITFIELD ctu_can_fd_btr_fd)) = 32"
    "\<forall>(n, lsb, w)\<in>set (union_layout BIG_ENDIAN_BITFIELD ctu_can_fd_btr_fd).
        is_reserved n \<longrightarrow> n = reserved_name lsb w"
    by blast+
  with mem widths res show ?thesis
    by blast
qed

text \<open>
  C6. The register named MODE is bound to byte offset 0x4: the enumerator
  \<^verbatim>\<open>CTU_CAN_FD_MODE\<close> of \<^verbatim>\<open>enum ctu_can_fd_can_registers\<close> equals 0x4.
\<close>

theorem MODE_offset:
  "reg_offset ''MODE'' = Some 0x4
   \<and> (''CTU_CAN_FD_MODE'', 0x4) \<in> set (e_consts ctu_can_fd_can_registers)"
  by (simp add: reg_offset_def ctu_can_fd_can_registers_def)

text \<open>
  C7. In \<^verbatim>\<open>enum ctu_can_fd_log_capt_event_2_evnt_det\<close> distinct names share one value:
  \<^verbatim>\<open>ISN_FDSTF\<close> and \<^verbatim>\<open>ISN_FSTF\<close> are both 0x0, and \<^verbatim>\<open>BIT_ERR\<close>, \<^verbatim>\<open>S_UP\<close>, \<^verbatim>\<open>IS_SYNC\<close>,
  \<^verbatim>\<open>IS_FDSTF\<close> and \<^verbatim>\<open>IS_FSTF\<close> are all 0x1. All fifteen names are kept, each a name of its
  own.
\<close>

theorem evnt_det_aliases:
  "names_of_value ctu_can_fd_log_capt_event_2_evnt_det 0x0 = [''ISN_FDSTF'', ''ISN_FSTF'']
   \<and> names_of_value ctu_can_fd_log_capt_event_2_evnt_det 0x1
       = [''BIT_ERR'', ''S_UP'', ''IS_SYNC'', ''IS_FDSTF'', ''IS_FSTF'']
   \<and> length (e_consts ctu_can_fd_log_capt_event_2_evnt_det) = 15
   \<and> distinct (map fst (e_consts ctu_can_fd_log_capt_event_2_evnt_det))"
  by (simp add: names_of_value_def ctu_can_fd_log_capt_event_2_evnt_det_def)

text \<open>
  C8. The fields \<^verbatim>\<open>tx1s\<close>, \<^verbatim>\<open>tx2s\<close>, \<^verbatim>\<open>tx3s\<close> and \<^verbatim>\<open>tx4s\<close> of TX_STATUS are 4 bits wide,
  and the enumeration of their values is a fixed list of seven names, among them
  \<^verbatim>\<open>TXT_RDY = 0x1\<close>, \<^verbatim>\<open>TXT_TRAN = 0x2\<close>, \<^verbatim>\<open>TXT_ERR = 0x6\<close> and \<^verbatim>\<open>TXT_ABT = 0x7\<close>; all
  values of the enumeration are pairwise distinct.
\<close>

theorem tx_status_codes:
  "map (field_width ctu_can_fd_tx_status) [''tx1s'', ''tx2s'', ''tx3s'', ''tx4s'']
     = [Some 4, Some 4, Some 4, Some 4]
   \<and> map fst (e_consts ctu_can_fd_tx_status_tx1s)
       = [''TXT_RDY'', ''TXT_TRAN'', ''TXT_ABTP'', ''TXT_TOK'', ''TXT_ERR'', ''TXT_ABT'', ''TXT_ETY'']
   \<and> map (map_of (e_consts ctu_can_fd_tx_status_tx1s)) [''TXT_RDY'', ''TXT_TRAN'', ''TXT_ERR'', ''TXT_ABT'']
       = [Some 0x1, Some 0x2, Some 0x6, Some 0x7]
   \<and> distinct (map snd (e_consts ctu_can_fd_tx_status_tx1s))"
  by (simp add: field_width_def struct_fields_def ctu_can_fd_tx_status_def
        ctu_can_fd_tx_status_tx1s_def)

text \<open>
  C9. The four transmit buffers are addressed alike: for every buffer \<open>n\<close> from 1 to 4,
  \<^verbatim>\<open>TXTBn_DATA_1\<close> is at \<open>n * 0x100\<close>, \<^verbatim>\<open>TXTBn_DATA_2\<close> at 0x4 above it and
  \<^verbatim>\<open>TXTBn_DATA_20\<close> at 0x4c above it, which is 19 words of 4 bytes.
\<close>

theorem txtb_data_addressing:
  "(\<forall>n\<in>{1..4}.
        reg_offset (txtb_data n ''1'') = Some (n * 0x100)
      \<and> reg_offset (txtb_data n ''2'') = Some (n * 0x100 + 0x4)
      \<and> reg_offset (txtb_data n ''20'') = Some (n * 0x100 + 0x4c))
   \<and> (0x4c :: nat) = 19 * 4"
proof (intro conjI ballI)
  fix n :: nat assume "n \<in> {1..4}"
  then have "n = 1 \<or> n = 2 \<or> n = 3 \<or> n = 4"
    by auto
  then show "reg_offset (txtb_data n ''1'') = Some (n * 0x100)"
    "reg_offset (txtb_data n ''2'') = Some (n * 0x100 + 0x4)"
    "reg_offset (txtb_data n ''20'') = Some (n * 0x100 + 0x4c)"
    by (auto simp: txtb_data_def dec_digit_def reg_offsets)
qed simp

theorem txtb_data_addressing_witness:
  "(3 :: nat) \<in> {1..4}
   \<and> txtb_data 3 ''20'' = ''TXTB3_DATA_20''
   \<and> reg_offset ''TXTB3_DATA_1'' = Some 0x300
   \<and> reg_offset ''TXTB3_DATA_2'' = Some 0x304
   \<and> reg_offset ''TXTB3_DATA_20'' = Some 0x34c"
proof -
  have mem: "(3 :: nat) \<in> {1..4}"
    by simp
  have names: "txtb_data 3 ''1'' = ''TXTB3_DATA_1''" "txtb_data 3 ''2'' = ''TXTB3_DATA_2''"
    "txtb_data 3 ''20'' = ''TXTB3_DATA_20''"
    by (simp_all add: txtb_data_def dec_digit_def)
  from txtb_data_addressing mem
  have "reg_offset (txtb_data 3 ''1'') = Some (3 * 0x100)"
    "reg_offset (txtb_data 3 ''2'') = Some (3 * 0x100 + 0x4)"
    "reg_offset (txtb_data 3 ''20'') = Some (3 * 0x100 + 0x4c)"
    by blast+
  with mem names show ?thesis
    by simp
qed

text \<open>
  C10. INT_ENA_SET, INT_ENA_CLR, INT_MASK_SET and INT_MASK_CLR have the same layout: one
  field of 12 bits at bits 0 to 11 and \<^verbatim>\<open>reserved_31_12\<close> at bits 12 to 31, under either
  bit-field order. INT_STAT has twelve named flags of one bit each, \<^verbatim>\<open>rxi\<close> to \<^verbatim>\<open>txbhci\<close>,
  at bits 0 to 11, and the same reserved field above them.
\<close>

theorem interrupt_registers_layout:
  "map (union_layout LITTLE_ENDIAN_BITFIELD)
     [ctu_can_fd_int_ena_set, ctu_can_fd_int_ena_clr, ctu_can_fd_int_mask_set, ctu_can_fd_int_mask_clr]
     = [[(''int_ena_set'', 0, 12), (''reserved_31_12'', 12, 20)],
        [(''int_ena_clr'', 0, 12), (''reserved_31_12'', 12, 20)],
        [(''int_mask_set'', 0, 12), (''reserved_31_12'', 12, 20)],
        [(''int_mask_clr'', 0, 12), (''reserved_31_12'', 12, 20)]]
   \<and> map (union_layout BIG_ENDIAN_BITFIELD)
     [ctu_can_fd_int_ena_set, ctu_can_fd_int_ena_clr, ctu_can_fd_int_mask_set, ctu_can_fd_int_mask_clr]
     = [[(''reserved_31_12'', 12, 20), (''int_ena_set'', 0, 12)],
        [(''reserved_31_12'', 12, 20), (''int_ena_clr'', 0, 12)],
        [(''reserved_31_12'', 12, 20), (''int_mask_set'', 0, 12)],
        [(''reserved_31_12'', 12, 20), (''int_mask_clr'', 0, 12)]]
   \<and> union_layout LITTLE_ENDIAN_BITFIELD ctu_can_fd_int_stat
     = [(''rxi'', 0, 1), (''txi'', 1, 1), (''ewli'', 2, 1), (''doi'', 3, 1), (''epi'', 4, 1),
        (''ali'', 5, 1), (''bei'', 6, 1), (''lfi'', 7, 1), (''rxfi'', 8, 1), (''bsi'', 9, 1),
        (''rbnei'', 10, 1), (''txbhci'', 11, 1), (''reserved_31_12'', 12, 20)]
   \<and> union_layout BIG_ENDIAN_BITFIELD ctu_can_fd_int_stat
     = rev (union_layout LITTLE_ENDIAN_BITFIELD ctu_can_fd_int_stat)
   \<and> length (filter (\<lambda>(n, lsb, w). \<not> is_reserved n \<and> w = 1)
               (union_layout LITTLE_ENDIAN_BITFIELD ctu_can_fd_int_stat)) = 12"
  by (simp add: union_layout_def struct_fields_def is_reserved_def
        ctu_can_fd_int_ena_set_def ctu_can_fd_int_ena_clr_def ctu_can_fd_int_mask_set_def
        ctu_can_fd_int_mask_clr_def ctu_can_fd_int_stat_def)

end
